theory Spec2Isabelle
  imports Main
begin

section \<open>Python values, exceptions and library boundaries\<close>

text \<open>
  The program is \<^verbatim>\<open>src/main.py\<close>. The classes of \<^verbatim>\<open>Exception\<close> that the modelled code can
  meet are the constructors of \<open>exn\<close>; every \<^verbatim>\<open>except Exception\<close> of the source catches
  all of them. \<^verbatim>\<open>KeyboardInterrupt\<close> is not an \<^verbatim>\<open>Exception\<close>: it is modelled apart, by the
  program point at which the signal reaches the loop of \<^verbatim>\<open>enhance_data\<close>.
\<close>

datatype exn =
    JSONDecodeError | UnicodeDecodeError | KeyError | TypeError | IndexError
  | AttributeError | FileNotFoundError | RequestException | OtherException

text \<open>
  Values that come out of \<^verbatim>\<open>json\<close> and that sit in DataFrame cells. \<open>JNull\<close> is Python's
  \<^verbatim>\<open>None\<close> (and pandas' NaN after \<^verbatim>\<open>replace(np.nan, None)\<close>). Floating point numbers are
  left out.
\<close>

datatype json =
    JNull | JBool bool | JInt int | JStr string
  | JArr "json list" | JObj "(string \<times> json) list"

text \<open>Python truthiness of such a value (\<^verbatim>\<open>if video_stats\<close>).\<close>

fun truthy :: "json \<Rightarrow> bool" where
  "truthy JNull = False"
| "truthy (JBool b) = b"
| "truthy (JInt n) = (n \<noteq> 0)"
| "truthy (JStr s) = (s \<noteq> [])"
| "truthy (JArr xs) = (xs \<noteq> [])"
| "truthy (JObj kvs) = (kvs \<noteq> [])"

text \<open>\<^verbatim>\<open>v[key]\<close> for a string key: only a dict has string keys.\<close>

fun getitem_key :: "json \<Rightarrow> string \<Rightarrow> exn + json" where
  "getitem_key (JObj kvs) k = (case map_of kvs k of None \<Rightarrow> Inl KeyError | Some v \<Rightarrow> Inr v)"
| "getitem_key _ k = Inl TypeError"

text \<open>\<^verbatim>\<open>v[0]\<close>: the first element of a list, the first character of a string; a dict read
  from JSON has string keys only, so the integer key is missing.\<close>

fun getitem_0 :: "json \<Rightarrow> exn + json" where
  "getitem_0 (JArr []) = Inl IndexError"
| "getitem_0 (JArr (x # xs)) = Inr x"
| "getitem_0 (JStr []) = Inl IndexError"
| "getitem_0 (JStr (c # cs)) = Inr (JStr [c])"
| "getitem_0 (JObj kvs) = Inl KeyError"
| "getitem_0 _ = Inl TypeError"

text \<open>\<^verbatim>\<open>str.strip()\<close>: the ASCII characters for which \<^verbatim>\<open>str.isspace\<close> holds are 9 to 13 and
  28 to 32.\<close>

definition is_space :: "char \<Rightarrow> bool" where
  "is_space c = (let n = (of_char c :: nat) in (9 \<le> n \<and> n \<le> 13) \<or> (28 \<le> n \<and> n \<le> 32))"

definition strip :: "string \<Rightarrow> string" where
  "strip s = rev (dropWhile is_space (rev (dropWhile is_space s)))"

subsection \<open>The parsed document\<close>

text \<open>
  A node of the BeautifulSoup tree: a text node or a tag with its attributes and its
  \<^verbatim>\<open>contents\<close>. Attribute values are strings (the two attributes the program reads,
  \<^verbatim>\<open>src\<close> and \<^verbatim>\<open>href\<close>, are single-valued). Comments and other special strings are left out.
\<close>

datatype node = NavigableString string | Tag string "(string \<times> string) list" "node list"

text \<open>\<^verbatim>\<open>.text\<close>: all the strings below the node, concatenated.\<close>

fun node_text :: "node \<Rightarrow> string" where
  "node_text (NavigableString s) = s"
| "node_text (Tag nm attrs cs) = concat (map node_text cs)"

text \<open>\<^verbatim>\<open>.contents\<close> and \<^verbatim>\<open>.get(attr, default)\<close>; a text node has neither.\<close>

fun contents :: "node \<Rightarrow> exn + node list" where
  "contents (NavigableString s) = Inl AttributeError"
| "contents (Tag nm attrs cs) = Inr cs"

fun node_get :: "node \<Rightarrow> string \<Rightarrow> string \<Rightarrow> exn + string" where
  "node_get (NavigableString s) a d = Inl AttributeError"
| "node_get (Tag nm attrs cs) a d = Inr (case map_of attrs a of None \<Rightarrow> d | Some v \<Rightarrow> v)"

text \<open>\<^verbatim>\<open>.find(string=True, recursive=False)\<close>: the first direct child that is a text node.\<close>

fun first_string :: "node list \<Rightarrow> string option" where
  "first_string [] = None"
| "first_string (NavigableString s # cs) = Some s"
| "first_string (Tag nm attrs ds # cs) = first_string cs"

fun find_string :: "node \<Rightarrow> exn + string option" where
  "find_string (NavigableString s) = Inl AttributeError"
| "find_string (Tag nm attrs cs) = Inr (first_string cs)"

subsection \<open>HTTP\<close>

text \<open>The two remote calls, by the channel identifier they carry, and what comes back.\<close>

datatype request = ProfileGet json | VideoPost json

record response =
  status_code :: int
  body :: string

subsection \<open>DataFrames\<close>

text \<open>
  A pandas DataFrame with the default index \<open>0..<nrows\<close>: its column labels in order and
  its cells by row position and column label.
\<close>

record DataFrame =
  columns :: "string list"
  nrows :: nat
  cells :: "nat \<Rightarrow> string \<Rightarrow> json"

text \<open>\<^verbatim>\<open>row[col]\<close> for the row at a position: KeyError when the frame has no such column.\<close>

definition row_getitem :: "DataFrame \<Rightarrow> nat \<Rightarrow> string \<Rightarrow> exn + json" where
  "row_getitem d idx col = (if col \<in> set (columns d) then Inr (cells d idx col) else Inl KeyError)"

text \<open>
  \<^verbatim>\<open>df.at[idx, col] = value\<close>: sets one cell; a label that is not yet a column is added as a
  new last column, empty (NaN) in every other row.
\<close>

definition df_at :: "nat \<Rightarrow> string \<times> json \<Rightarrow> DataFrame \<Rightarrow> DataFrame" where
  "df_at idx kv d =
     (if fst kv \<in> set (columns d)
      then d\<lparr>cells := (\<lambda>i c. if i = idx \<and> c = fst kv then snd kv else cells d i c)\<rparr>
      else d\<lparr>columns := columns d @ [fst kv],
             cells := (\<lambda>i c. if c = fst kv then (if i = idx then snd kv else JNull)
                              else cells d i c)\<rparr>)"

text \<open>\<^verbatim>\<open>df.iloc[-1].values[-1]\<close>: IndexError on a frame with no row or no column.\<close>

definition last_row_last_value :: "DataFrame \<Rightarrow> exn + json" where
  "last_row_last_value d =
     (if nrows d = 0 \<or> columns d = [] then Inl IndexError
      else Inr (cells d (nrows d - 1) (last (columns d))))"

subsection \<open>Library functions taken as parameters\<close>

text \<open>
  What the program calls in bs4, requests, json and pandas is not code of the repository;
  it is a parameter of the model:
  \<^item> \<open>bs_select_one\<close>, \<open>bs_select\<close>: \<^verbatim>\<open>select_one\<close> and \<^verbatim>\<open>select\<close> of a node for a CSS selector;
  \<^item> \<open>bs_parse\<close>: \<^verbatim>\<open>BeautifulSoup(text, "html.parser")\<close>;
  \<^item> \<open>http_send\<close>: the answer of the remote site to a request, given how many requests were
    sent before it; \<open>Inl\<close> is an exception of \<^verbatim>\<open>session.get\<close>, \<^verbatim>\<open>session.post\<close> or of building
    the headers;
  \<^item> \<open>response_json\<close>: \<^verbatim>\<open>response.json()\<close> on a body; \<open>json_dumps\<close>: \<^verbatim>\<open>json.dumps\<close>;
  \<^item> \<open>json_load\<close>: what \<^verbatim>\<open>json.load\<close> gives for a file, and \<open>pd_read_csv\<close>: what
    \<^verbatim>\<open>pd.read_csv\<close> gives for a file. A file written by the program is modelled by the value
    that was written (\<^verbatim>\<open>json.dump\<close>, \<^verbatim>\<open>to_csv\<close>); any other content is some value on which
    these two functions answer as the library does on that content;
  \<^item> \<open>pd_merge\<close>: \<^verbatim>\<open>pd.merge(df, enhanced_df.drop(columns=[...]), on="channel_id", how="left")\<close>.
\<close>

record lib =
  bs_select_one :: "node \<Rightarrow> string \<Rightarrow> exn + node option"
  bs_select :: "node \<Rightarrow> string \<Rightarrow> exn + node list"
  bs_parse :: "string \<Rightarrow> exn + node"
  http_send :: "nat \<Rightarrow> request \<Rightarrow> exn + response"
  response_json :: "string \<Rightarrow> exn + json"
  json_dumps :: "json \<Rightarrow> string"
  json_load :: "json \<Rightarrow> exn + json"
  pd_read_csv :: "DataFrame \<Rightarrow> exn + DataFrame"
  pd_merge :: "DataFrame \<Rightarrow> DataFrame \<Rightarrow> exn + DataFrame"

section \<open>The field extractor\<close>

text \<open>
  \<^verbatim>\<open>SocialBladeScraper._get_text\<close> (a name cannot start with an underscore here). The body
  of its \<^verbatim>\<open>try\<close> first: \<^verbatim>\<open>soup\<close> may be \<^verbatim>\<open>None\<close> (the average blocks pass the result of a
  \<^verbatim>\<open>select_one\<close>), and \<^verbatim>\<open>if attr\<close> holds for a given, non-empty attribute name.
\<close>

definition get_text_body ::
  "lib \<Rightarrow> node option \<Rightarrow> string \<Rightarrow> string option \<Rightarrow> bool \<Rightarrow> exn + string" where
  "get_text_body L soup selector attr call_firstChild =
     (case soup of
        None \<Rightarrow> Inl AttributeError
      | Some d \<Rightarrow>
          (case bs_select_one L d selector of
             Inl e \<Rightarrow> Inl e
           | Inr None \<Rightarrow> Inr ''N/A''
           | Inr (Some element) \<Rightarrow>
               (if attr \<noteq> None \<and> attr \<noteq> Some [] then node_get element (the attr) ''N/A''
                else if call_firstChild then
                  (case contents element of
                     Inl e \<Rightarrow> Inl e
                   | Inr [] \<Rightarrow> Inl IndexError
                   | Inr (c # cs) \<Rightarrow> Inr (strip (node_text c)))
                else Inr (strip (node_text element)))))"


definition get_text :: "lib \<Rightarrow> node option \<Rightarrow> string \<Rightarrow> string option \<Rightarrow> bool \<Rightarrow> string" where
  "get_text L soup selector attr call_firstChild =
     (case get_text_body L soup selector attr call_firstChild of
        Inl e \<Rightarrow> ''N/A''
      | Inr s \<Rightarrow> s)"

text \<open>\<^verbatim>\<open>SocialBladeScraper._get_first_text\<close>: \<^verbatim>\<open>find\<close> gives \<^verbatim>\<open>None\<close> when the selected element
  has no direct text, and \<^verbatim>\<open>None.strip()\<close> raises AttributeError.\<close>

definition get_first_text_body :: "lib \<Rightarrow> node option \<Rightarrow> string \<Rightarrow> exn + string" where
  "get_first_text_body L element selector =
     (case element of
        None \<Rightarrow> Inl AttributeError
      | Some d \<Rightarrow>
          (case bs_select_one L d selector of
             Inl e \<Rightarrow> Inl e
           | Inr None \<Rightarrow> Inr ''N/A''
           | Inr (Some selected) \<Rightarrow>
               (case find_string selected of
                  Inl e \<Rightarrow> Inl e
                | Inr None \<Rightarrow> Inl AttributeError
                | Inr (Some s) \<Rightarrow> Inr (strip s))))"


definition get_first_text :: "lib \<Rightarrow> node option \<Rightarrow> string \<Rightarrow> string" where
  "get_first_text L element selector =
     (case get_first_text_body L element selector of
        Inl e \<Rightarrow> ''N/A''
      | Inr s \<Rightarrow> s)"

section \<open>The result of a fetch\<close>

text \<open>
  The dataclasses \<^verbatim>\<open>DailyStats\<close>, \<^verbatim>\<open>AverageStats\<close> and \<^verbatim>\<open>SocialBladeStats\<close>. The fields of
  the two nested classes carry a prefix, since they share names with each other and with
  the fields of \<^verbatim>\<open>SocialBladeStats\<close>. A field whose default is \<^verbatim>\<open>None\<close> is an option. The
  field \<open>last_video_upload_date\<close> receives a value of the video list as it is, so it is a
  \<open>json\<close> value.
\<close>

record DailyStats =
  d_date :: string
  d_day :: string
  d_subscriber_growth :: string
  d_total_subscribers :: string
  d_video_views :: string
  d_total_views :: string
  d_estimated_earnings :: string

record AverageStats =
  a_name :: string
  a_subscriber_growth :: string
  a_view_growth :: string
  a_estimated_earnings :: string

record SocialBladeStats =
  avatar :: string
  name :: string
  username :: string
  profile_url :: string
  subscribers :: string
  total_views :: string
  uploads :: string
  country :: string
  channel_type :: string
  created :: string
  subscribers_last_30_days :: string
  subscribers_growth_30_days :: string
  estimated_monthly_earnings :: string
  video_views_last_30_days :: string
  video_views_growth_30_days :: string
  recent_daily_stats_json :: "DailyStats list option"
  daily_average_stats_json :: "AverageStats option"
  weekly_average_stats_json :: "AverageStats option"
  monthly_average_stats_json :: "AverageStats option"
  last_video_upload_date :: json
  last_50_videos_stats_json :: "string option"

subsection \<open>Recent daily statistics\<close>

text \<open>The \<^verbatim>\<open>DailyStats(...)\<close> built from one block; \<^verbatim>\<open>x or "--"\<close> replaces the empty string.\<close>

definition daily_stat :: "lib \<Rightarrow> node \<Rightarrow> DailyStats" where
  "daily_stat L element =
     \<lparr> d_date = get_text L (Some element) ''div:nth-child(1)'' None False,
       d_day = get_text L (Some element) ''div:nth-child(2)'' None False,
       d_subscriber_growth =
         (let g = get_text L (Some element) ''div:nth-child(3) div:nth-child(1) span'' None False
          in if g = [] then ''--'' else g),
       d_total_subscribers =
         get_text L (Some element) ''div:nth-child(3) div:nth-child(2)'' None False,
       d_video_views =
         get_text L (Some element) ''div:nth-child(4) div:nth-child(1) span'' None False,
       d_total_views =
         get_text L (Some element) ''div:nth-child(4) div:nth-child(2)'' None False,
       d_estimated_earnings = get_text L (Some element) ''div:nth-child(5)'' None False \<rparr>"

text \<open>The slice \<^verbatim>\<open>xs[i:j]\<close> for \<open>0 \<le> i \<le> j\<close>.\<close>

definition slice :: "nat \<Rightarrow> nat \<Rightarrow> 'a list \<Rightarrow> 'a list" where
  "slice i j xs = take (j - i) (drop i xs)"

text \<open>The \<^verbatim>\<open>for\<close> loop that appends one \<^verbatim>\<open>DailyStats\<close> per element to \<^verbatim>\<open>daily_stats\<close>.\<close>

fun daily_loop :: "lib \<Rightarrow> node list \<Rightarrow> DailyStats list \<Rightarrow> DailyStats list" where
  "daily_loop L [] daily_stats = daily_stats"
| "daily_loop L (element # rest) daily_stats =
     daily_loop L rest (daily_stats @ [daily_stat L element])"

text \<open>\<^verbatim>\<open>_extract_recent_daily_stats\<close>: the body of the \<^verbatim>\<open>try\<close>, then the function with its
  \<^verbatim>\<open>except Exception: return []\<close>.\<close>

definition extract_recent_daily_stats_body :: "lib \<Rightarrow> node \<Rightarrow> exn + DailyStats list" where
  "extract_recent_daily_stats_body L soup =
     (case bs_select L soup ''#socialblade-user-content > div'' of
        Inl e \<Rightarrow> Inl e
      | Inr all_divs \<Rightarrow> Inr (daily_loop L (slice 6 20 all_divs) []))"

definition extract_recent_daily_stats :: "lib \<Rightarrow> node \<Rightarrow> DailyStats list" where
  "extract_recent_daily_stats L soup =
     (case extract_recent_daily_stats_body L soup of Inl e \<Rightarrow> [] | Inr ds \<Rightarrow> ds)"

subsection \<open>Averages\<close>

text \<open>\<^verbatim>\<open>_extract_daily_average\<close> and \<^verbatim>\<open>_extract_average\<close>: \<^verbatim>\<open>None\<close> when the \<^verbatim>\<open>select_one\<close> of the
  block raises; a block that is not found is passed on as \<^verbatim>\<open>None\<close> to the extractors.\<close>

definition extract_daily_average :: "lib \<Rightarrow> node \<Rightarrow> AverageStats option" where
  "extract_daily_average L soup =
     (case bs_select_one L soup ''#socialblade-user-content > div:nth-child(21)'' of
        Inl e \<Rightarrow> None
      | Inr daily_div \<Rightarrow>
          Some \<lparr> a_name = get_first_text L daily_div ''div:nth-child(1)'',
                 a_subscriber_growth = get_text L daily_div ''#averagedailysubs span'' None False,
                 a_view_growth = get_text L daily_div ''#averagedailyviews span'' None False,
                 a_estimated_earnings = get_text L daily_div ''div:nth-child(4)'' None False \<rparr>)"

definition extract_average :: "lib \<Rightarrow> node \<Rightarrow> string \<Rightarrow> AverageStats option" where
  "extract_average L soup period =
     (let selector = (if period = ''weekly'' then ''div:nth-child(22)'' else ''div:nth-child(23)'')
      in case bs_select_one L soup (''#socialblade-user-content > '' @ selector) of
           Inl e \<Rightarrow> None
         | Inr avg_div \<Rightarrow>
             Some \<lparr> a_name = get_first_text L avg_div ''div:nth-child(1)'',
                    a_subscriber_growth = get_text L avg_div ''div:nth-child(2) span'' None False,
                    a_view_growth = get_text L avg_div ''div:nth-child(3) span'' None False,
                    a_estimated_earnings = get_text L avg_div ''div:nth-child(4) span'' None False \<rparr>)"

subsection \<open>The two remote calls\<close>

text \<open>
  \<^verbatim>\<open>fetch_video_stats\<close>. The list of the requests sent so far is threaded through; the
  rate limiter only delays a call and is left out. Every exception of the body gives
  \<^verbatim>\<open>None\<close>.
\<close>

definition fetch_video_stats :: "lib \<Rightarrow> json \<Rightarrow> request list \<Rightarrow> (json \<times> json) option \<times> request list" where
  "fetch_video_stats L channel_id reqs =
     (let reqs' = reqs @ [VideoPost channel_id] in
      case http_send L (length reqs) (VideoPost channel_id) of
        Inl e \<Rightarrow> (None, reqs')
      | Inr response \<Rightarrow>
          if status_code response \<noteq> 200 then (None, reqs')
          else
            (case response_json L (body response) of
               Inl e \<Rightarrow> (None, reqs')
             | Inr video_stats \<Rightarrow>
                 if truthy video_stats then
                   (case getitem_0 video_stats of
                      Inl e \<Rightarrow> (None, reqs')
                    | Inr v \<Rightarrow>
                        (case getitem_key v ''created_at'' of
                           Inl e \<Rightarrow> (None, reqs')
                         | Inr date \<Rightarrow> (Some (date, video_stats), reqs')))
                 else (Some (JStr ''N/A'', video_stats), reqs')))"

text \<open>The \<^verbatim>\<open>SocialBladeStats(...)\<close> built from the fifteen profile locators; the other fields
  keep their defaults.\<close>

definition profile_stats :: "lib \<Rightarrow> node \<Rightarrow> SocialBladeStats" where
  "profile_stats L soup =
     \<lparr> avatar = get_text L (Some soup) ''#YouTubeUserTopInfoAvatar'' (Some ''src'') False,
       name = get_text L (Some soup) ''#YouTubeUserTopInfoBlockTop h1'' None False,
       username = get_text L (Some soup) ''#YouTubeUserTopInfoBlockTop h4 a'' None False,
       profile_url =
         get_text L (Some soup) ''#YouTubeUserTopInfoBlockTop h4 a'' (Some ''href'') False,
       subscribers = get_text L (Some soup)
         ''#YouTubeUserTopInfoBlock div.YouTubeUserTopInfo:nth-child(3) > span:nth-child(3)''
         None False,
       total_views = get_text L (Some soup)
         ''#YouTubeUserTopInfoBlock div.YouTubeUserTopInfo:nth-child(4) > span:nth-child(3)''
         None False,
       uploads = get_text L (Some soup)
         ''#YouTubeUserTopInfoBlock .YouTubeUserTopInfo:nth-child(2) span:nth-child(3)''
         None False,
       country = get_text L (Some soup) ''#youtube-user-page-country'' None False,
       channel_type = get_text L (Some soup) ''#youtube-user-page-channeltype'' None False,
       created = get_text L (Some soup)
         ''#YouTubeUserTopInfoBlock .YouTubeUserTopInfo:nth-child(7) span:nth-child(3)''
         None False,
       subscribers_last_30_days = get_text L (Some soup)
         ''#socialblade-user-content > div:nth-child(3) > div:nth-child(1) > p:nth-child(1)''
         None True,
       subscribers_growth_30_days = get_text L (Some soup)
         ''#socialblade-user-content > div:nth-child(3) > div:nth-child(1) > p:nth-child(1) > sup:nth-child(1) > span:nth-child(1)''
         None False,
       estimated_monthly_earnings = get_text L (Some soup)
         ''#socialblade-user-content > div:nth-child(3) > div:nth-child(2) > p:nth-child(1)''
         None False,
       video_views_last_30_days = get_text L (Some soup)
         ''#socialblade-user-content > div:nth-child(3) > div:nth-child(3) > p:nth-child(1)''
         None True,
       video_views_growth_30_days = get_text L (Some soup)
         ''#socialblade-user-content > div:nth-child(3) > div:nth-child(3) > p:nth-child(1) > sup:nth-child(1) > span:nth-child(1)''
         None False,
       recent_daily_stats_json = None,
       daily_average_stats_json = None,
       weekly_average_stats_json = None,
       monthly_average_stats_json = None,
       last_video_upload_date = JStr ''N/A'',
       last_50_videos_stats_json = None \<rparr>"

text \<open>The statements of \<^verbatim>\<open>fetch_channel_stats\<close> after the profile fields: the video
  result is stored when there is one, then the daily block and the three averages.\<close>

definition with_video :: "lib \<Rightarrow> (json \<times> json) option \<Rightarrow> SocialBladeStats \<Rightarrow> SocialBladeStats" where
  "with_video L video_result stats =
     (case video_result of
        None \<Rightarrow> stats
      | Some (date, last_50_videos_stats) \<Rightarrow>
          stats\<lparr>last_video_upload_date := date,
                last_50_videos_stats_json := Some (json_dumps L last_50_videos_stats)\<rparr>)"

definition with_blocks :: "lib \<Rightarrow> node \<Rightarrow> SocialBladeStats \<Rightarrow> SocialBladeStats" where
  "with_blocks L soup stats =
     stats\<lparr>recent_daily_stats_json := Some (extract_recent_daily_stats L soup),
           daily_average_stats_json := extract_daily_average L soup,
           weekly_average_stats_json := extract_average L soup ''weekly'',
           monthly_average_stats_json := extract_average L soup ''monthly''\<rparr>"

text \<open>\<^verbatim>\<open>fetch_channel_stats\<close>: one GET of the profile page; a status other than 200 and every
  exception of the body give \<^verbatim>\<open>None\<close>.\<close>

definition fetch_channel_stats ::
  "lib \<Rightarrow> json \<Rightarrow> request list \<Rightarrow> SocialBladeStats option \<times> request list" where
  "fetch_channel_stats L channel_id reqs =
     (let reqs1 = reqs @ [ProfileGet channel_id] in
      case http_send L (length reqs) (ProfileGet channel_id) of
        Inl e \<Rightarrow> (None, reqs1)
      | Inr response \<Rightarrow>
          if status_code response \<noteq> 200 then (None, reqs1)
          else
            (case bs_parse L (body response) of
               Inl e \<Rightarrow> (None, reqs1)
             | Inr soup \<Rightarrow>
                 (let stats = profile_stats L soup;
                      (video_result, reqs2) = fetch_video_stats L channel_id reqs1
                  in (Some (with_blocks L soup (with_video L video_result stats)), reqs2))))"

section \<open>The enhancement pipeline\<close>

subsection \<open>State\<close>

text \<open>
  The three files of \<^verbatim>\<open>SocialBladeEnhancer\<close> (\<open>None\<close>: the file does not exist), the
  requests sent so far, a trace, and the two variables of \<^verbatim>\<open>enhance_data\<close> that the loop
  changes: the frame \<^verbatim>\<open>df\<close> and the set \<^verbatim>\<open>processed_channels\<close>. Writing a file is taken
  to succeed. The set is a list without repetitions, in insertion order; the order in
  which Python lists a set is not specified, and equality of elements is the one of
  \<open>json\<close>.

  The trace holds the writes and removals of files and the log lines that the claims
  name; \<open>FetchReturned\<close> is not a log line, it records what a call of
  \<^verbatim>\<open>fetch_channel_stats\<close> returned.
\<close>

datatype event =
    FetchReturned json "SocialBladeStats option"
  | WroteCsv | WroteProgress | RemovedProgress
  | LogWarning string | LogInfo string | LogException exn

record state =
  input_file :: "DataFrame option"
  enhanced_file :: "DataFrame option"
  progress_file :: "json option"
  requests :: "request list"
  trace :: "event list"
  df :: DataFrame
  processed_channels :: "json list"

text \<open>
  Where a \<^verbatim>\<open>KeyboardInterrupt\<close> reaches one pass of the loop: before the membership test
  (line 563), during the fetch (line 569), in the merge after so many cell assignments
  (lines 602-603), before \<^verbatim>\<open>processed_channels.add\<close> (line 608), before \<^verbatim>\<open>save_progress\<close>
  (line 609), before the periodic save (line 612). The signal is modelled in the loop only,
  at most once in a run; a fetch that it cuts short leaves no request in the state. A
  point that the pass of the row does not reach (the row is skipped, or its fetch fails) is
  a signal that does not arrive.
\<close>

datatype point = BeforeSkipCheck | InFetch | InMerge nat | BeforeAdd | BeforeSave | BeforePeriodic

datatype ctl = Next | Raise exn | KeyboardInterrupt

datatype outcome = Done | Interrupted | Failed exn | AlreadyCompleted

subsection \<open>Checkpoint and dataset files\<close>

text \<open>\<^verbatim>\<open>read_csv_pandas\<close>: \<^verbatim>\<open>None\<close> on any exception; the cells \<^verbatim>\<open>"--"\<close> become \<^verbatim>\<open>None\<close>.\<close>

definition read_csv_pandas :: "lib \<Rightarrow> DataFrame \<Rightarrow> DataFrame option" where
  "read_csv_pandas L csv_file =
     (case pd_read_csv L csv_file of
        Inl e \<Rightarrow> None
      | Inr d \<Rightarrow>
          Some (d\<lparr>cells := (\<lambda>i c. if cells d i c = JStr ''--'' then JNull else cells d i c)\<rparr>))"

definition fresh_progress :: json where
  "fresh_progress = JObj [(''processed_channels'', JArr [])]"

text \<open>\<^verbatim>\<open>load_progress\<close>: only \<^verbatim>\<open>json.JSONDecodeError\<close> is caught.\<close>

definition load_progress :: "lib \<Rightarrow> state \<Rightarrow> (exn + json) \<times> state" where
  "load_progress L s =
     (case progress_file s of
        None \<Rightarrow> (Inr fresh_progress, s)
      | Some f \<Rightarrow>
          (case json_load L f of
             Inr progress \<Rightarrow> (Inr progress, s)
           | Inl e \<Rightarrow>
               if e = JSONDecodeError
               then (Inr fresh_progress,
                     s\<lparr>trace := trace s @ [LogWarning ''Corrupt progress file found. Starting fresh.'']\<rparr>)
               else (Inl e, s)))"

text \<open>\<^verbatim>\<open>save_progress\<close> overwrites the checkpoint file; \<^verbatim>\<open>df.to_csv(self.enhanced_file)\<close>
  overwrites the dataset file with the frame in memory.\<close>

definition save_progress :: "json list \<Rightarrow> state \<Rightarrow> state" where
  "save_progress pcs s =
     s\<lparr>progress_file := Some (JObj [(''processed_channels'', JArr pcs)]),
       trace := trace s @ [WroteProgress]\<rparr>"

definition to_csv :: "state \<Rightarrow> state" where
  "to_csv s = s\<lparr>enhanced_file := Some (df s), trace := trace s @ [WroteCsv]\<rparr>"

definition remove_progress :: "state \<Rightarrow> state" where
  "remove_progress s =
     (case progress_file s of
        None \<Rightarrow> s
      | Some f \<Rightarrow> s\<lparr>progress_file := None, trace := trace s @ [RemovedProgress]\<rparr>)"

text \<open>\<^verbatim>\<open>set(v)\<close>: a list of hashable values, the characters of a string, the keys of a dict.\<close>

fun hashable :: "json \<Rightarrow> bool" where
  "hashable (JArr xs) = False"
| "hashable (JObj kvs) = False"
| "hashable _ = True"

fun py_set :: "json \<Rightarrow> exn + json list" where
  "py_set (JArr xs) = (if list_all hashable xs then Inr (remdups xs) else Inl TypeError)"
| "py_set (JStr s) = Inr (remdups (map (\<lambda>c. JStr [c]) s))"
| "py_set (JObj kvs) = Inr (remdups (map (\<lambda>kv. JStr (fst kv)) kvs))"
| "py_set _ = Inl TypeError"

definition set_add :: "json \<Rightarrow> json list \<Rightarrow> json list" where
  "set_add x xs = (if x \<in> set xs then xs else xs @ [x])"

subsection \<open>Merging a result into the frame\<close>

definition vars_daily :: "DailyStats \<Rightarrow> json" where
  "vars_daily d =
     JObj [(''date'', JStr (d_date d)), (''day'', JStr (d_day d)),
           (''subscriber_growth'', JStr (d_subscriber_growth d)),
           (''total_subscribers'', JStr (d_total_subscribers d)),
           (''video_views'', JStr (d_video_views d)),
           (''total_views'', JStr (d_total_views d)),
           (''estimated_earnings'', JStr (d_estimated_earnings d))]"

definition vars_average :: "AverageStats \<Rightarrow> json" where
  "vars_average a =
     JObj [(''name'', JStr (a_name a)),
           (''subscriber_growth'', JStr (a_subscriber_growth a)),
           (''view_growth'', JStr (a_view_growth a)),
           (''estimated_earnings'', JStr (a_estimated_earnings a))]"

definition average_cell :: "lib \<Rightarrow> AverageStats option \<Rightarrow> json" where
  "average_cell L a = (case a of None \<Rightarrow> JNull | Some v \<Rightarrow> JStr (json_dumps L (vars_average v)))"

text \<open>
  \<^verbatim>\<open>stats_dict\<close> after the conversions of lines 573-599, in the order of the fields: a
  non-empty list of daily statistics and an average that is not \<^verbatim>\<open>None\<close> are replaced by
  their \<^verbatim>\<open>json.dumps\<close>; an empty list and \<^verbatim>\<open>None\<close> stay.
\<close>

definition stats_dict :: "lib \<Rightarrow> SocialBladeStats \<Rightarrow> (string \<times> json) list" where
  "stats_dict L stats =
     [(''avatar'', JStr (avatar stats)),
      (''name'', JStr (name stats)),
      (''username'', JStr (username stats)),
      (''profile_url'', JStr (profile_url stats)),
      (''subscribers'', JStr (subscribers stats)),
      (''total_views'', JStr (total_views stats)),
      (''uploads'', JStr (uploads stats)),
      (''country'', JStr (country stats)),
      (''channel_type'', JStr (channel_type stats)),
      (''created'', JStr (created stats)),
      (''subscribers_last_30_days'', JStr (subscribers_last_30_days stats)),
      (''subscribers_growth_30_days'', JStr (subscribers_growth_30_days stats)),
      (''estimated_monthly_earnings'', JStr (estimated_monthly_earnings stats)),
      (''video_views_last_30_days'', JStr (video_views_last_30_days stats)),
      (''video_views_growth_30_days'', JStr (video_views_growth_30_days stats)),
      (''recent_daily_stats_json'',
         (case recent_daily_stats_json stats of
            None \<Rightarrow> JNull
          | Some [] \<Rightarrow> JArr []
          | Some (d # ds) \<Rightarrow> JStr (json_dumps L (JArr (map vars_daily (d # ds)))))),
      (''daily_average_stats_json'', average_cell L (daily_average_stats_json stats)),
      (''weekly_average_stats_json'', average_cell L (weekly_average_stats_json stats)),
      (''monthly_average_stats_json'', average_cell L (monthly_average_stats_json stats)),
      (''last_video_upload_date'', last_video_upload_date stats),
      (''last_50_videos_stats_json'',
         (case last_50_videos_stats_json stats of None \<Rightarrow> JNull | Some v \<Rightarrow> JStr v))]"

text \<open>The assignments \<^verbatim>\<open>df.at[idx, f"socialblade_{key}"] = value\<close>, as column and value.\<close>

definition stats_items :: "lib \<Rightarrow> SocialBladeStats \<Rightarrow> (string \<times> json) list" where
  "stats_items L stats = map (\<lambda>kv. (''socialblade_'' @ fst kv, snd kv)) (stats_dict L stats)"

subsection \<open>One pass of the loop\<close>

text \<open>Lines 611-616: the dataset is written when \<^verbatim>\<open>idx % 10 == 0\<close>.\<close>

definition periodic_save :: "point option \<Rightarrow> nat \<Rightarrow> state \<Rightarrow> ctl \<times> state" where
  "periodic_save sg idx s =
     (if sg = Some BeforePeriodic then (KeyboardInterrupt, s)
      else if idx mod 10 = 0 then (Next, to_csv s)
      else (Next, s))"

text \<open>Lines 571-616 for a fetch that returned a result.\<close>

definition record_stats ::
  "lib \<Rightarrow> point option \<Rightarrow> nat \<Rightarrow> json \<Rightarrow> SocialBladeStats \<Rightarrow> state \<Rightarrow> ctl \<times> state" where
  "record_stats L sg idx channel_id stats s =
     (case sg of
        Some (InMerge k) \<Rightarrow>
          (KeyboardInterrupt, s\<lparr>df := fold (df_at idx) (take k (stats_items L stats)) (df s)\<rparr>)
      | _ \<Rightarrow>
          (let s2 = s\<lparr>df := fold (df_at idx) (stats_items L stats) (df s)\<rparr> in
           if sg = Some BeforeAdd then (KeyboardInterrupt, s2)
           else
             (let s3 = s2\<lparr>processed_channels := set_add channel_id (processed_channels s2)\<rparr> in
              if sg = Some BeforeSave then (KeyboardInterrupt, s3)
              else periodic_save sg idx (save_progress (processed_channels s3) s3))))"

text \<open>
  Lines 563-616. \<open>rows\<close> is the frame the iteration runs over (\<^verbatim>\<open>df.iterrows()\<close> reads the
  rows as they were when the loop started); \<open>sg\<close> is the point at which the signal reaches
  this pass, if it does.
\<close>

definition loop_body :: "lib \<Rightarrow> point option \<Rightarrow> DataFrame \<Rightarrow> nat \<Rightarrow> state \<Rightarrow> ctl \<times> state" where
  "loop_body L sg rows idx s =
     (if sg = Some BeforeSkipCheck then (KeyboardInterrupt, s)
      else
        (case row_getitem rows idx ''channel_id'' of
           Inl e \<Rightarrow> (Raise e, s)
         | Inr channel_id \<Rightarrow>
             if channel_id \<in> set (processed_channels s) then (Next, s)
             else
               (case row_getitem rows idx ''channel_title'' of
                  Inl e \<Rightarrow> (Raise e, s)
                | Inr title \<Rightarrow>
                    if sg = Some InFetch then (KeyboardInterrupt, s)
                    else
                      (let (stats, reqs) = fetch_channel_stats L channel_id (requests s);
                           s1 = s\<lparr>requests := reqs,
                                  trace := trace s @ [FetchReturned channel_id stats]\<rparr>
                       in case stats of
                            None \<Rightarrow> periodic_save sg idx s1
                          | Some st \<Rightarrow> record_stats L sg idx channel_id st s1))))"

text \<open>The signal, given as a row position and a point, seen from the pass of one row.\<close>

definition signal_at :: "(nat \<times> point) option \<Rightarrow> nat \<Rightarrow> point option" where
  "signal_at sg idx =
     (case sg of None \<Rightarrow> None | Some (i, p) \<Rightarrow> if i = idx then Some p else None)"

text \<open>The \<^verbatim>\<open>for\<close> loop over the row positions.\<close>

fun iterate :: "lib \<Rightarrow> (nat \<times> point) option \<Rightarrow> DataFrame \<Rightarrow> nat list \<Rightarrow> state \<Rightarrow> ctl \<times> state" where
  "iterate L sg rows [] s = (Next, s)"
| "iterate L sg rows (idx # rest) s =
     (case loop_body L (signal_at sg idx) rows idx s of
        (Next, s') \<Rightarrow> iterate L sg rows rest s'
      | (Raise e, s') \<Rightarrow> (Raise e, s')
      | (KeyboardInterrupt, s') \<Rightarrow> (KeyboardInterrupt, s'))"

subsection \<open>The run\<close>

text \<open>The outer \<^verbatim>\<open>except Exception\<close> of \<^verbatim>\<open>enhance_data\<close> and of \<^verbatim>\<open>enhance\<close>: the exception is
  logged and the function returns.\<close>

definition failed :: "exn \<Rightarrow> state \<Rightarrow> outcome \<times> state" where
  "failed e s = (Failed e, s\<lparr>trace := trace s @ [LogException e]\<rparr>)"

text \<open>Lines 546-560: the frame the loop works on. Without an enriched file it is the
  input; \<^verbatim>\<open>enhanced_df.drop\<close> raises AttributeError when the enriched file could not be
  read.\<close>

definition merge_existing :: "lib \<Rightarrow> DataFrame \<Rightarrow> state \<Rightarrow> exn + DataFrame" where
  "merge_existing L d s =
     (case enhanced_file s of
        None \<Rightarrow> Inr d
      | Some f \<Rightarrow>
          (case read_csv_pandas L f of
             None \<Rightarrow> Inl AttributeError
           | Some enhanced_df \<Rightarrow> pd_merge L d enhanced_df))"

text \<open>Lines 562-632: the loop, then the final save and the removal of the checkpoint, or
  the handler of \<^verbatim>\<open>KeyboardInterrupt\<close>, which writes the dataset and the checkpoint. An
  exception of the loop goes to the outer handler.\<close>

definition run_iteration ::
  "lib \<Rightarrow> (nat \<times> point) option \<Rightarrow> DataFrame \<Rightarrow> json list \<Rightarrow> state \<Rightarrow> outcome \<times> state" where
  "run_iteration L sg d pcs s =
     (case iterate L sg d [0..<nrows d] (s\<lparr>df := d, processed_channels := pcs\<rparr>) of
        (Next, s') \<Rightarrow> (Done, remove_progress (to_csv s'))
      | (Raise e, s') \<Rightarrow> failed e s'
      | (KeyboardInterrupt, s') \<Rightarrow>
          (Interrupted, save_progress (processed_channels s') (to_csv s')))"

text \<open>Lines 544-632: the inner \<^verbatim>\<open>try\<close>.\<close>

definition run_loop ::
  "lib \<Rightarrow> (nat \<times> point) option \<Rightarrow> DataFrame \<Rightarrow> json list \<Rightarrow> state \<Rightarrow> outcome \<times> state" where
  "run_loop L sg d pcs s =
     (case merge_existing L d s of
        Inl e \<Rightarrow> failed e s
      | Inr d' \<Rightarrow> run_iteration L sg d' pcs s)"

text \<open>\<^verbatim>\<open>enhance_data\<close>. \<^verbatim>\<open>len(df)\<close> raises TypeError when the input could not be read.\<close>

definition enhance_data :: "lib \<Rightarrow> (nat \<times> point) option \<Rightarrow> bool \<Rightarrow> state \<Rightarrow> outcome \<times> state" where
  "enhance_data L sg resume s =
     (case input_file s of
        None \<Rightarrow> failed FileNotFoundError s
      | Some f \<Rightarrow>
          (case read_csv_pandas L f of
             None \<Rightarrow> failed TypeError s
           | Some d \<Rightarrow>
               (case (if resume then load_progress L s else (Inr fresh_progress, s)) of
                  (Inl e, s1) \<Rightarrow> failed e s1
                | (Inr progress, s1) \<Rightarrow>
                    (case getitem_key progress ''processed_channels'' of
                       Inl e \<Rightarrow> failed e s1
                     | Inr v \<Rightarrow>
                         (case py_set v of
                            Inl e \<Rightarrow> failed e s1
                          | Inr pcs \<Rightarrow> run_loop L sg d pcs s1)))))"

text \<open>The command \<^verbatim>\<open>enhance\<close>, lines 677-697.\<close>

definition enhance :: "lib \<Rightarrow> (nat \<times> point) option \<Rightarrow> bool \<Rightarrow> state \<Rightarrow> outcome \<times> state" where
  "enhance L sg resume s =
     (case enhanced_file s of
        None \<Rightarrow> enhance_data L sg resume s
      | Some f \<Rightarrow>
          (case read_csv_pandas L f of
             None \<Rightarrow> failed AttributeError s
           | Some d \<Rightarrow>
               (case last_row_last_value d of
                  Inl e \<Rightarrow> failed e s
                | Inr v \<Rightarrow>
                    if v = JNull then
                      enhance_data L sg resume
                        (s\<lparr>trace := trace s @
                             [LogInfo ''Enhancement process is still ongoing. Resuming from the last state.'']\<rparr>)
                    else if length (columns d) > 5 then
                      (AlreadyCompleted,
                       s\<lparr>trace := trace s @ [LogInfo ''Enhancement process has already completed.'']\<rparr>)
                    else enhance_data L sg resume s)))"

section \<open>A small instance of the library\<close>

text \<open>
  An instance of the parameters, used to run the definitions on concrete inputs. Its
  selector engine is a toy one: a selector is a tag name and matches the children of the
  node that carry it; the empty selector is a syntax error. The site answers 500 for the
  channel \<open>gone\<close> and 200 otherwise, and 404 for every video list. Files are read back as
  they were written.
\<close>

definition is_named :: "string \<Rightarrow> node \<Rightarrow> bool" where
  "is_named sel c = (case c of NavigableString t \<Rightarrow> False | Tag nm attrs cs \<Rightarrow> nm = sel)"

definition ex_select :: "node \<Rightarrow> string \<Rightarrow> exn + node list" where
  "ex_select d sel =
     (if sel = [] then Inl OtherException
      else case d of NavigableString t \<Rightarrow> Inr [] | Tag nm attrs cs \<Rightarrow> Inr (filter (is_named sel) cs))"

definition ex_select_one :: "node \<Rightarrow> string \<Rightarrow> exn + node option" where
  "ex_select_one d sel =
     (case ex_select d sel of Inl e \<Rightarrow> Inl e | Inr [] \<Rightarrow> Inr None | Inr (c # cs) \<Rightarrow> Inr (Some c))"

definition ex_block :: "string \<Rightarrow> node" where
  "ex_block date =
     Tag ''#socialblade-user-content > div'' []
       [Tag ''div:nth-child(1)'' [] [NavigableString date]]"

definition ex_page :: node where
  "ex_page =
     Tag ''html'' []
       ([Tag ''#YouTubeUserTopInfoAvatar'' [(''src'', ''a.png'')] [],
         Tag ''img'' [(''alt'', ''logo'')] [],
         Tag ''p'' [] [Tag ''b'' [] [NavigableString ''bold'']]]
        @ map ex_block [''d1'', ''d2'', ''d3'', ''d4'', ''d5'', ''d6'', ''d7'', ''d8''])"

definition ex_http :: "nat \<Rightarrow> request \<Rightarrow> exn + response" where
  "ex_http n req =
     (case req of
        ProfileGet c \<Rightarrow>
          if c = JStr ''gone'' then Inr \<lparr>status_code = 500, body = []\<rparr>
          else Inr \<lparr>status_code = 200, body = ''<html>''\<rparr>
      | VideoPost c \<Rightarrow> Inr \<lparr>status_code = 404, body = []\<rparr>)"

definition ex_lib :: lib where
  "ex_lib =
     \<lparr> bs_select_one = ex_select_one,
       bs_select = ex_select,
       bs_parse = (\<lambda>text. Inr ex_page),
       http_send = ex_http,
       response_json = (\<lambda>b. Inl JSONDecodeError),
       json_dumps = (\<lambda>j. ''json''),
       json_load = Inr,
       pd_read_csv = Inr,
       pd_merge = (\<lambda>d e. Inr d) \<rparr>"

text \<open>A subscription list of two or three channels with the five columns that
  \<^verbatim>\<open>fetch_subscriptions\<close> writes, and a state in which only that file exists.\<close>

definition ex_subs :: "json list \<Rightarrow> DataFrame" where
  "ex_subs ids =
     \<lparr> columns = [''channel_id'', ''channel_title'', ''social_blade_url'', ''youtube_url'',
                  ''fetch_date''],
       nrows = length ids,
       cells = (\<lambda>i c. if c = ''channel_id'' \<and> i < length ids then ids ! i else JStr ''x'') \<rparr>"

definition ex_state :: "json list \<Rightarrow> state" where
  "ex_state ids =
     \<lparr> input_file = Some (ex_subs ids), enhanced_file = None, progress_file = None,
       requests = [], trace = [],
       df = \<lparr>columns = [], nrows = 0, cells = (\<lambda>i c. JNull)\<rparr>,
       processed_channels = [] \<rparr>"

text \<open>An enriched file of one row and six columns, without an empty cell.\<close>

definition ex_done :: DataFrame where
  "ex_done = \<lparr>columns = [''channel_id'', ''channel_title'', ''social_blade_url'', ''youtube_url'',
       ''fetch_date'', ''socialblade_avatar''], nrows = 1, cells = (\<lambda>i c. JStr ''v'')\<rparr>"

section \<open>Notions used to state the properties\<close>

text \<open>The fifteen fields of a \<^verbatim>\<open>SocialBladeStats\<close> that \<^verbatim>\<open>fetch_channel_stats\<close> fills with
  \<^verbatim>\<open>_get_text\<close>.\<close>

definition string_fields :: "SocialBladeStats \<Rightarrow> string list" where
  "string_fields st =
     [avatar st, name st, username st, profile_url st, subscribers st, total_views st,
      uploads st, country st, channel_type st, created st, subscribers_last_30_days st,
      subscribers_growth_30_days st, estimated_monthly_earnings st,
      video_views_last_30_days st, video_views_growth_30_days st]"

text \<open>The row at a position holds a result: each of its \<^verbatim>\<open>socialblade_\<close> columns exists and
  has the value that the merge of lines 602-603 assigns for that result.\<close>

definition row_holds :: "lib \<Rightarrow> DataFrame \<Rightarrow> nat \<Rightarrow> SocialBladeStats \<Rightarrow> bool" where
  "row_holds L d idx st =
     list_all (\<lambda>kv. fst kv \<in> set (columns d) \<and> cells d idx (fst kv) = snd kv) (stats_items L st)"

section \<open>Properties of the field extractor\<close>













text \<open>The toy instance, unfolded.\<close>

lemmas ex_simps = ex_lib_def ex_select_one_def ex_select_def ex_page_def is_named_def
  ex_block_def


section \<open>Properties of the fetch\<close>

lemma daily_loop_map: "daily_loop L els acc = acc @ map (daily_stat L) els"
  by (induction els arbitrary: acc) simp_all

lemma extract_recent_eq:
  "extract_recent_daily_stats L soup =
     (case bs_select L soup ''#socialblade-user-content > div'' of
        Inl e \<Rightarrow> []
      | Inr all_divs \<Rightarrow> map (daily_stat L) (take 14 (drop 6 all_divs)))"
  by (simp add: extract_recent_daily_stats_def extract_recent_daily_stats_body_def
      daily_loop_map slice_def split: sum.splits)

text \<open>
  Claim C9. \<^verbatim>\<open>_extract_recent_daily_stats\<close> takes the child blocks of the container at the
  positions 6 to 19 (it skips the six leading blocks), maps each to one \<^verbatim>\<open>DailyStats\<close> and
  returns them in document order: at most 14 entries, entry \<open>i\<close> built from block \<open>6 + i\<close>.
  When selecting the blocks raises, it returns the empty list.
\<close>

theorem recent_daily_stats_window:
  "extract_recent_daily_stats L soup =
     (case bs_select L soup ''#socialblade-user-content > div'' of
        Inl e \<Rightarrow> []
      | Inr all_divs \<Rightarrow> map (daily_stat L) (take 14 (drop 6 all_divs))) \<and>
   length (extract_recent_daily_stats L soup) \<le> 14 \<and>
   (\<forall>all_divs. bs_select L soup ''#socialblade-user-content > div'' = Inr all_divs \<longrightarrow>
      length (extract_recent_daily_stats L soup) = min 14 (length all_divs - 6) \<and>
      (\<forall>i < length (extract_recent_daily_stats L soup).
         extract_recent_daily_stats L soup ! i = daily_stat L (all_divs ! (6 + i))))"
proof (intro conjI allI impI)
  show "extract_recent_daily_stats L soup =
     (case bs_select L soup ''#socialblade-user-content > div'' of
        Inl e \<Rightarrow> []
      | Inr all_divs \<Rightarrow> map (daily_stat L) (take 14 (drop 6 all_divs)))"
    by (rule extract_recent_eq)
  show "length (extract_recent_daily_stats L soup) \<le> 14"
    by (simp add: extract_recent_eq split: sum.splits)
next
  fix all_divs
  assume sel: "bs_select L soup ''#socialblade-user-content > div'' = Inr all_divs"
  then have eq: "extract_recent_daily_stats L soup = map (daily_stat L) (take 14 (drop 6 all_divs))"
    by (simp add: extract_recent_eq)
  show "length (extract_recent_daily_stats L soup) = min 14 (length all_divs - 6)"
    by (simp add: eq min.commute)
  fix i
  assume "i < length (extract_recent_daily_stats L soup)"
  then have "i < 14" "i < length all_divs - 6"
    by (simp_all add: eq)
  then show "extract_recent_daily_stats L soup ! i = daily_stat L (all_divs ! (6 + i))"
    by (simp add: eq)
qed

theorem recent_daily_stats_window_witness:
  "map d_date (extract_recent_daily_stats ex_lib ex_page) = [''d7'', ''d8''] \<and>
   length (extract_recent_daily_stats ex_lib ex_page) = 2 \<and>
   extract_recent_daily_stats ex_lib ex_page ! 1 = daily_stat ex_lib (ex_block ''d8'') \<and>
   extract_recent_daily_stats (ex_lib\<lparr>bs_select := (\<lambda>d sel. Inl OtherException)\<rparr>) ex_page = []"
proof -
  have sel: "bs_select ex_lib ex_page ''#socialblade-user-content > div'' =
      Inr (map ex_block [''d1'', ''d2'', ''d3'', ''d4'', ''d5'', ''d6'', ''d7'', ''d8''])"
    by (simp add: ex_lib_def ex_select_def ex_page_def is_named_def ex_block_def)
  have date: "\<And>x. d_date (daily_stat ex_lib (ex_block x)) = strip x"
    by (simp add: daily_stat_def get_text_def get_text_body_def ex_lib_def ex_select_one_def
        ex_select_def is_named_def ex_block_def)
  have st: "strip ''d7'' = ''d7''" "strip ''d8'' = ''d8''"
    by (simp_all add: strip_def is_space_def)
  show ?thesis
    using recent_daily_stats_window [of ex_lib ex_page]
      recent_daily_stats_window [of "ex_lib\<lparr>bs_select := (\<lambda>d sel. Inl OtherException)\<rparr>" ex_page]
    by (simp add: sel date st)
qed

lemma fetch_video_stats_requests:
  "snd (fetch_video_stats L cid reqs) = reqs @ [VideoPost cid]"
  by (simp add: fetch_video_stats_def Let_def split: sum.splits)

lemma fetch_video_stats_fails:
  assumes "case http_send L (length reqs) (VideoPost cid) of
             Inl e \<Rightarrow> True
           | Inr r \<Rightarrow>
               status_code r \<noteq> 200 \<or>
               (case response_json L (body r) of
                  Inl e \<Rightarrow> True
                | Inr v \<Rightarrow>
                    truthy v \<and>
                    (case getitem_0 v of
                       Inl e \<Rightarrow> True
                     | Inr x \<Rightarrow> (case getitem_key x ''created_at'' of Inl e \<Rightarrow> True | Inr y \<Rightarrow> False)))"
  shows "fetch_video_stats L cid reqs = (None, reqs @ [VideoPost cid])"
  using assms by (auto simp add: fetch_video_stats_def Let_def split: sum.splits)


lemma fetch_channel_stats_ok:
  "http_send L (length reqs) (ProfileGet cid) = Inr r \<Longrightarrow> status_code r = 200 \<Longrightarrow>
   bs_parse L (body r) = Inr soup \<Longrightarrow>
   fetch_channel_stats L cid reqs =
     (Some (with_blocks L soup
        (with_video L (fst (fetch_video_stats L cid (reqs @ [ProfileGet cid]))) (profile_stats L soup))),
      reqs @ [ProfileGet cid, VideoPost cid])"
  using fetch_video_stats_requests [of L cid "reqs @ [ProfileGet cid]"]
  by (cases "fetch_video_stats L cid (reqs @ [ProfileGet cid])")
     (simp add: fetch_channel_stats_def Let_def)

lemma fetch_channel_stats_Some:
  assumes "fetch_channel_stats L cid reqs = (Some st, reqs')"
  shows "\<exists>r soup. http_send L (length reqs) (ProfileGet cid) = Inr r \<and> status_code r = 200 \<and>
           bs_parse L (body r) = Inr soup \<and>
           st = with_blocks L soup
                  (with_video L (fst (fetch_video_stats L cid (reqs @ [ProfileGet cid])))
                     (profile_stats L soup))"
proof -
  obtain r where r: "http_send L (length reqs) (ProfileGet cid) = Inr r"
    using assms by (cases "http_send L (length reqs) (ProfileGet cid)")
      (simp_all add: fetch_channel_stats_def Let_def)
  have ok: "status_code r = 200"
    using assms r by (simp add: fetch_channel_stats_def Let_def split: if_splits)
  obtain soup where soup: "bs_parse L (body r) = Inr soup"
    using assms r ok by (cases "bs_parse L (body r)")
      (simp_all add: fetch_channel_stats_def Let_def)
  show ?thesis
    using assms fetch_channel_stats_ok [OF r ok soup] r ok soup by auto
qed

lemma string_fields_with_blocks [simp]:
  "string_fields (with_blocks L soup st) = string_fields st"
  by (simp add: string_fields_def with_blocks_def)

lemma string_fields_with_video [simp]:
  "string_fields (with_video L vr st) = string_fields st"
  by (simp add: string_fields_def with_video_def split: option.splits)

lemma string_fields_profile:
  "list_all (\<lambda>x. \<exists>sel attr cf. x = get_text L (Some soup) sel attr cf)
     (string_fields (profile_stats L soup))"
  unfolding string_fields_def profile_stats_def
  by (simp; blast)


lemma with_blocks_video_fields [simp]:
  "last_50_videos_stats_json (with_blocks L soup st) = last_50_videos_stats_json st"
  "last_video_upload_date (with_blocks L soup st) = last_video_upload_date st"
  "recent_daily_stats_json (with_blocks L soup st) = Some (extract_recent_daily_stats L soup)"
  "daily_average_stats_json (with_blocks L soup st) = extract_daily_average L soup"
  "weekly_average_stats_json (with_blocks L soup st) = extract_average L soup ''weekly''"
  "monthly_average_stats_json (with_blocks L soup st) = extract_average L soup ''monthly''"
  by (simp_all add: with_blocks_def)

lemma profile_stats_video_fields [simp]:
  "last_50_videos_stats_json (profile_stats L soup) = None"
  "last_video_upload_date (profile_stats L soup) = JStr ''N/A''"
  by (simp_all add: profile_stats_def)

lemma with_video_only_video_fields:
  "\<exists>d v. with_blocks L soup (with_video L vr st) =
     (with_blocks L soup st)\<lparr>last_video_upload_date := d, last_50_videos_stats_json := v\<rparr>"
proof (cases vr)
  case None
  have "with_blocks L soup st =
      (with_blocks L soup st)\<lparr>last_video_upload_date := last_video_upload_date (with_blocks L soup st),
         last_50_videos_stats_json := last_50_videos_stats_json (with_blocks L soup st)\<rparr>"
    by simp
  with None show ?thesis
    unfolding with_video_def by (simp only: option.case) blast
next
  case (Some p)
  obtain d v where p: "p = (d, v)" by (cases p)
  have "with_blocks L soup (st\<lparr>last_video_upload_date := d,
            last_50_videos_stats_json := Some (json_dumps L v)\<rparr>) =
      (with_blocks L soup st)\<lparr>last_video_upload_date := d,
         last_50_videos_stats_json := Some (json_dumps L v)\<rparr>"
    by (simp add: with_blocks_def)
  with Some p show ?thesis
    unfolding with_video_def by (simp only: option.case prod.case) blast
qed

text \<open>
  Claim C8. When the profile page is fetched (status 200, parsed) and the video-list call
  fails (the request raises, its status is not 200, \<^verbatim>\<open>response.json()\<close> raises, or the
  first record has no \<^verbatim>\<open>created_at\<close>), \<^verbatim>\<open>fetch_channel_stats\<close> still returns a result. The
  two video fields keep their defaults and every other field is what the profile page
  gives: the result differs from the one of any other video outcome in those two fields
  only.
\<close>

theorem video_failure_partial_success:
  assumes "http_send L (length reqs) (ProfileGet cid) = Inr r"
    and "status_code r = 200"
    and "bs_parse L (body r) = Inr soup"
    and "case http_send L (Suc (length reqs)) (VideoPost cid) of
             Inl e \<Rightarrow> True
           | Inr r2 \<Rightarrow>
               status_code r2 \<noteq> 200 \<or>
               (case response_json L (body r2) of
                  Inl e \<Rightarrow> True
                | Inr v \<Rightarrow>
                    truthy v \<and>
                    (case getitem_0 v of
                       Inl e \<Rightarrow> True
                     | Inr x \<Rightarrow> (case getitem_key x ''created_at'' of Inl e \<Rightarrow> True | Inr y \<Rightarrow> False)))"
  shows "fetch_channel_stats L cid reqs =
           (Some (with_blocks L soup (profile_stats L soup)),
            reqs @ [ProfileGet cid, VideoPost cid]) \<and>
         last_50_videos_stats_json (with_blocks L soup (profile_stats L soup)) = None \<and>
         last_video_upload_date (with_blocks L soup (profile_stats L soup)) = JStr ''N/A'' \<and>
         (\<forall>vr. \<exists>d v. with_blocks L soup (with_video L vr (profile_stats L soup)) =
            (with_blocks L soup (profile_stats L soup))
              \<lparr>last_video_upload_date := d, last_50_videos_stats_json := v\<rparr>)"
proof -
  have "fetch_video_stats L cid (reqs @ [ProfileGet cid]) =
      (None, (reqs @ [ProfileGet cid]) @ [VideoPost cid])"
    using assms(4) by (intro fetch_video_stats_fails) simp
  then have "fetch_channel_stats L cid reqs =
      (Some (with_blocks L soup (profile_stats L soup)), reqs @ [ProfileGet cid, VideoPost cid])"
    using fetch_channel_stats_ok [OF assms(1-3)] by (simp add: with_video_def)
  then show ?thesis
    using with_video_only_video_fields by simp
qed

lemma ex_fetch_A:
  "fetch_channel_stats ex_lib (JStr ''A'') [] =
     (Some (with_blocks ex_lib ex_page (profile_stats ex_lib ex_page)),
      [ProfileGet (JStr ''A''), VideoPost (JStr ''A'')])"
proof -
  have v: "fetch_video_stats ex_lib (JStr ''A'') ([] @ [ProfileGet (JStr ''A'')]) =
      (None, ([] @ [ProfileGet (JStr ''A'')]) @ [VideoPost (JStr ''A'')])"
    by (rule fetch_video_stats_fails) (simp add: ex_lib_def ex_http_def)
  show ?thesis
    using fetch_channel_stats_ok [of ex_lib "[]" "JStr ''A''"
        "\<lparr>status_code = 200, body = ''<html>''\<rparr>" ex_page] v
    by (simp add: ex_lib_def ex_http_def with_video_def)
qed

theorem video_failure_partial_success_witness:
  "fetch_channel_stats ex_lib (JStr ''A'') [] \<noteq> (None, []) \<and>
   fetch_channel_stats ex_lib (JStr ''A'') [] =
     (Some (with_blocks ex_lib ex_page (profile_stats ex_lib ex_page)),
      [ProfileGet (JStr ''A''), VideoPost (JStr ''A'')]) \<and>
   last_50_videos_stats_json (with_blocks ex_lib ex_page (profile_stats ex_lib ex_page)) = None"
  using video_failure_partial_success [of ex_lib "[]" "JStr ''A''"
      "\<lparr>status_code = 200, body = ''<html>''\<rparr>" ex_page]
  by (simp add: ex_lib_def ex_http_def)

text \<open>
  Claim C6, as stated, fails: a fetch can succeed and return a result whose attribute
  \<^verbatim>\<open>last_50_videos_stats_json\<close> is \<^verbatim>\<open>None\<close>. Here the profile page answers 200 and the video
  list answers 404.
\<close>

theorem stats_attribute_null_counterexample:
  "fst (fetch_channel_stats ex_lib (JStr ''A'') []) \<noteq> None \<and>
   last_50_videos_stats_json (the (fst (fetch_channel_stats ex_lib (JStr ''A'') []))) = None"
  by (simp add: ex_fetch_A)

text \<open>
  Claim C6, amended. For every successful fetch: each of the fifteen string fields holds
  what \<^verbatim>\<open>_get_text\<close> returned for the parsed page (extracted text or the sentinel, never
  null); \<^verbatim>\<open>recent_daily_stats_json\<close> is a list, possibly empty, never null;
  \<^verbatim>\<open>last_50_videos_stats_json\<close> is null exactly when the video-list call failed, and then
  \<^verbatim>\<open>last_video_upload_date\<close> is the sentinel; an average is null exactly when locating its
  block raised.
\<close>

theorem stats_fields_present:
  assumes "fetch_channel_stats L cid reqs = (Some st, reqs')"
  shows "\<exists>soup.
      list_all (\<lambda>x. \<exists>sel attr cf. x = get_text L (Some soup) sel attr cf) (string_fields st) \<and>
      recent_daily_stats_json st = Some (extract_recent_daily_stats L soup) \<and>
      (last_50_videos_stats_json st = None \<longleftrightarrow>
         fst (fetch_video_stats L cid (reqs @ [ProfileGet cid])) = None) \<and>
      (last_50_videos_stats_json st = None \<longrightarrow> last_video_upload_date st = JStr ''N/A'') \<and>
      (daily_average_stats_json st = None \<longleftrightarrow>
         (\<exists>e. bs_select_one L soup ''#socialblade-user-content > div:nth-child(21)'' = Inl e)) \<and>
      (weekly_average_stats_json st = None \<longleftrightarrow>
         (\<exists>e. bs_select_one L soup ''#socialblade-user-content > div:nth-child(22)'' = Inl e)) \<and>
      (monthly_average_stats_json st = None \<longleftrightarrow>
         (\<exists>e. bs_select_one L soup ''#socialblade-user-content > div:nth-child(23)'' = Inl e))"
proof -
  obtain soup where st: "st = with_blocks L soup
        (with_video L (fst (fetch_video_stats L cid (reqs @ [ProfileGet cid])))
           (profile_stats L soup))"
    using fetch_channel_stats_Some [OF assms] by blast
  have 1: "list_all (\<lambda>x. \<exists>sel attr cf. x = get_text L (Some soup) sel attr cf) (string_fields st)"
    by (simp add: st string_fields_profile)
  have 2: "recent_daily_stats_json st = Some (extract_recent_daily_stats L soup)"
    by (simp add: st)
  have 3: "last_50_videos_stats_json st = None \<longleftrightarrow>
      fst (fetch_video_stats L cid (reqs @ [ProfileGet cid])) = None"
    by (simp add: st with_video_def split: option.splits prod.splits)
  have 4: "last_50_videos_stats_json st = None \<longrightarrow> last_video_upload_date st = JStr ''N/A''"
    by (simp add: st with_video_def split: option.splits prod.splits)
  have 5: "daily_average_stats_json st = None \<longleftrightarrow>
      (\<exists>e. bs_select_one L soup ''#socialblade-user-content > div:nth-child(21)'' = Inl e)"
    by (simp add: st extract_daily_average_def split: sum.splits)
  have 6: "weekly_average_stats_json st = None \<longleftrightarrow>
      (\<exists>e. bs_select_one L soup ''#socialblade-user-content > div:nth-child(22)'' = Inl e)"
    by (simp add: st extract_average_def split: sum.splits)
  have 7: "monthly_average_stats_json st = None \<longleftrightarrow>
      (\<exists>e. bs_select_one L soup ''#socialblade-user-content > div:nth-child(23)'' = Inl e)"
    by (simp add: st extract_average_def split: sum.splits)
  show ?thesis
    by (rule exI [of _ soup]) (intro conjI 1 2 3 4 5 6 7)
qed

theorem stats_fields_present_witness:
  "recent_daily_stats_json (with_blocks ex_lib ex_page (profile_stats ex_lib ex_page)) \<noteq> None \<and>
   length (string_fields (with_blocks ex_lib ex_page (profile_stats ex_lib ex_page))) = 15 \<and>
   (\<exists>soup. list_all (\<lambda>x. \<exists>sel attr cf. x = get_text ex_lib (Some soup) sel attr cf)
      (string_fields (with_blocks ex_lib ex_page (profile_stats ex_lib ex_page))))"
  using stats_fields_present [OF ex_fetch_A]
  by (auto simp add: string_fields_def)

section \<open>Properties of the checkpoint file and of the command\<close>

lemma fresh_progress_set:
  "getitem_key fresh_progress ''processed_channels'' = Inr (JArr [])" "py_set (JArr []) = Inr []"
  by (simp_all add: fresh_progress_def)

lemma enhance_data_resume:
  assumes "input_file s = Some f" "read_csv_pandas L f = Some d"
    and "load_progress L s = (Inr fresh_progress, s1)"
  shows "enhance_data L sg True s = run_loop L sg d [] s1"
  using assms by (simp add: enhance_data_def fresh_progress_set)

text \<open>
  Claim C7, as stated, fails: a checkpoint file that cannot be decoded as text makes
  \<^verbatim>\<open>json.load\<close> raise UnicodeDecodeError, which \<^verbatim>\<open>load_progress\<close> does not catch; the run ends
  in the outer handler of \<^verbatim>\<open>enhance_data\<close> before any subject is fetched. The same happens,
  with a KeyError, for a file that holds the JSON object \<^verbatim>\<open>{}\<close>.
\<close>

theorem checkpoint_corruption_counterexample:
  "load_progress (ex_lib\<lparr>json_load := (\<lambda>f. Inl UnicodeDecodeError)\<rparr>)
     ((ex_state [JStr ''A''])\<lparr>progress_file := Some JNull\<rparr>) =
     (Inl UnicodeDecodeError, (ex_state [JStr ''A''])\<lparr>progress_file := Some JNull\<rparr>) \<and>
   enhance_data (ex_lib\<lparr>json_load := (\<lambda>f. Inl UnicodeDecodeError)\<rparr>) None True
     ((ex_state [JStr ''A''])\<lparr>progress_file := Some JNull\<rparr>) =
     (Failed UnicodeDecodeError,
      (ex_state [JStr ''A''])\<lparr>progress_file := Some JNull,
         trace := [LogException UnicodeDecodeError]\<rparr>) \<and>
   enhance_data ex_lib None True ((ex_state [JStr ''A''])\<lparr>progress_file := Some (JObj [])\<rparr>) =
     (Failed KeyError,
      (ex_state [JStr ''A''])\<lparr>progress_file := Some (JObj []), trace := [LogException KeyError]\<rparr>)"
  by (simp add: load_progress_def enhance_data_def failed_def read_csv_pandas_def ex_lib_def
      ex_state_def)

text \<open>
  Claim C7, amended. \<^verbatim>\<open>load_progress\<close> returns the empty progress when no checkpoint file
  exists, and also when \<^verbatim>\<open>json.load\<close> raises \<^verbatim>\<open>JSONDecodeError\<close> on it, then with the warning
  logged; in both cases a resumed run whose input can be read goes on to the loop with the
  empty set of identifiers. A content that \<^verbatim>\<open>json.load\<close> reads is returned as it is, and
  any other exception of \<^verbatim>\<open>json.load\<close> is raised to the caller.
\<close>

theorem load_progress_fresh:
  "(progress_file s = None \<longrightarrow> load_progress L s = (Inr fresh_progress, s)) \<and>
   (\<forall>f. progress_file s = Some f \<and> json_load L f = Inl JSONDecodeError \<longrightarrow>
      load_progress L s =
        (Inr fresh_progress,
         s\<lparr>trace := trace s @ [LogWarning ''Corrupt progress file found. Starting fresh.'']\<rparr>)) \<and>
   (\<forall>f j. progress_file s = Some f \<and> json_load L f = Inr j \<longrightarrow> load_progress L s = (Inr j, s)) \<and>
   (\<forall>f e. progress_file s = Some f \<and> json_load L f = Inl e \<and> e \<noteq> JSONDecodeError \<longrightarrow>
      load_progress L s = (Inl e, s)) \<and>
   getitem_key fresh_progress ''processed_channels'' = Inr (JArr []) \<and>
   py_set (JArr []) = Inr [] \<and>
   (\<forall>f d. input_file s = Some f \<and> read_csv_pandas L f = Some d \<and>
      (progress_file s = None \<or>
       (\<exists>p. progress_file s = Some p \<and> json_load L p = Inl JSONDecodeError)) \<longrightarrow>
      enhance_data L sg True s = run_loop L sg d [] (snd (load_progress L s)))"
proof (intro conjI allI impI)
  show "load_progress L s = (Inr fresh_progress, s)" if "progress_file s = None"
    using that by (simp add: load_progress_def)
  show "load_progress L s =
        (Inr fresh_progress,
         s\<lparr>trace := trace s @ [LogWarning ''Corrupt progress file found. Starting fresh.'']\<rparr>)"
    if "progress_file s = Some f \<and> json_load L f = Inl JSONDecodeError" for f
    using that by (simp add: load_progress_def)
  show "load_progress L s = (Inr j, s)"
    if "progress_file s = Some f \<and> json_load L f = Inr j" for f j
    using that by (simp add: load_progress_def)
  show "load_progress L s = (Inl e, s)"
    if "progress_file s = Some f \<and> json_load L f = Inl e \<and> e \<noteq> JSONDecodeError" for f e
    using that by (simp add: load_progress_def)
  show "getitem_key fresh_progress ''processed_channels'' = Inr (JArr [])"
    by (rule fresh_progress_set)
  show "py_set (JArr []) = Inr []"
    by simp
  show "enhance_data L sg True s = run_loop L sg d [] (snd (load_progress L s))"
    if h: "input_file s = Some f \<and> read_csv_pandas L f = Some d \<and>
      (progress_file s = None \<or>
       (\<exists>p. progress_file s = Some p \<and> json_load L p = Inl JSONDecodeError))" for f d
  proof -
    have "fst (load_progress L s) = Inr fresh_progress"
      using h by (auto simp add: load_progress_def)
    then have "load_progress L s = (Inr fresh_progress, snd (load_progress L s))"
      by (simp add: prod_eq_iff)
    with h show ?thesis
      using enhance_data_resume by blast
  qed
qed

theorem load_progress_fresh_witness:
  "load_progress ex_lib (ex_state [JStr ''A'']) = (Inr fresh_progress, ex_state [JStr ''A'']) \<and>
   load_progress (ex_lib\<lparr>json_load := (\<lambda>f. Inl JSONDecodeError)\<rparr>)
     ((ex_state [JStr ''A''])\<lparr>progress_file := Some JNull\<rparr>) =
     (Inr fresh_progress,
      (ex_state [JStr ''A''])\<lparr>progress_file := Some JNull,
         trace := [LogWarning ''Corrupt progress file found. Starting fresh.'']\<rparr>) \<and>
   enhance_data ex_lib (Some (0, BeforeSkipCheck)) True (ex_state [JStr ''A'']) =
     run_loop ex_lib (Some (0, BeforeSkipCheck)) (ex_subs [JStr ''A'']) []
       (snd (load_progress ex_lib (ex_state [JStr ''A''])))"
proof -
  have p: "progress_file (ex_state [JStr ''A'']) = None"
    by (simp add: ex_state_def)
  have q: "progress_file ((ex_state [JStr ''A''])\<lparr>progress_file := Some JNull\<rparr>) = Some JNull \<and>
      json_load (ex_lib\<lparr>json_load := (\<lambda>f. Inl JSONDecodeError)\<rparr>) JNull = Inl JSONDecodeError"
    by simp
  have r: "read_csv_pandas ex_lib (ex_subs [JStr ''A'']) = Some (ex_subs [JStr ''A''])"
    by (simp add: read_csv_pandas_def ex_lib_def ex_subs_def fun_eq_iff)
  have i: "input_file (ex_state [JStr ''A'']) = Some (ex_subs [JStr ''A''])"
    by (simp add: ex_state_def)
  note t = load_progress_fresh [of "ex_state [JStr ''A'']" ex_lib "Some (0, BeforeSkipCheck)"]
  note u = load_progress_fresh [of "(ex_state [JStr ''A''])\<lparr>progress_file := Some JNull\<rparr>"
      "ex_lib\<lparr>json_load := (\<lambda>f. Inl JSONDecodeError)\<rparr>" None]
  have 1: "load_progress ex_lib (ex_state [JStr ''A'']) = (Inr fresh_progress, ex_state [JStr ''A''])"
    using t p by blast
  have 2: "load_progress (ex_lib\<lparr>json_load := (\<lambda>f. Inl JSONDecodeError)\<rparr>)
     ((ex_state [JStr ''A''])\<lparr>progress_file := Some JNull\<rparr>) =
     (Inr fresh_progress,
      (ex_state [JStr ''A''])\<lparr>progress_file := Some JNull\<rparr>
        \<lparr>trace := trace ((ex_state [JStr ''A''])\<lparr>progress_file := Some JNull\<rparr>) @
           [LogWarning ''Corrupt progress file found. Starting fresh.'']\<rparr>)"
    using u q by blast
  have 3: "enhance_data ex_lib (Some (0, BeforeSkipCheck)) True (ex_state [JStr ''A'']) =
     run_loop ex_lib (Some (0, BeforeSkipCheck)) (ex_subs [JStr ''A'']) []
       (snd (load_progress ex_lib (ex_state [JStr ''A''])))"
    using t p r i by blast
  have tr: "trace (ex_state [JStr ''A'']) = []"
    by (simp add: ex_state_def)
  show ?thesis
    using 1 2 3 by (simp add: tr)
qed

text \<open>
  Claim C10, as stated, fails in its last part: when the enriched file exists and has no
  row, \<^verbatim>\<open>df.iloc[-1]\<close> raises IndexError; the command logs it and returns, so it neither
  declares completion nor runs the pipeline (\<^verbatim>\<open>enhance_data\<close> on the same state completes).
\<close>

theorem enhance_empty_file_counterexample:
  "enhance ex_lib None True ((ex_state [])\<lparr>enhanced_file := Some (ex_subs [])\<rparr>) =
     (Failed IndexError,
      (ex_state [])\<lparr>enhanced_file := Some (ex_subs []), trace := [LogException IndexError]\<rparr>) \<and>
   fst (enhance_data ex_lib None True ((ex_state [])\<lparr>enhanced_file := Some (ex_subs [])\<rparr>)) = Done"
proof -
  have r: "read_csv_pandas ex_lib (ex_subs []) = Some (ex_subs [])"
    by (simp add: read_csv_pandas_def ex_lib_def ex_subs_def fun_eq_iff)
  have l: "last_row_last_value (ex_subs []) = Inl IndexError"
    by (simp add: last_row_last_value_def ex_subs_def)
  have 1: "enhance ex_lib None True ((ex_state [])\<lparr>enhanced_file := Some (ex_subs [])\<rparr>) =
     (Failed IndexError,
      (ex_state [])\<lparr>enhanced_file := Some (ex_subs []), trace := [LogException IndexError]\<rparr>)"
    by (simp add: enhance_def r l failed_def) (simp add: ex_state_def)
  have m: "pd_merge ex_lib (ex_subs []) (ex_subs []) = Inr (ex_subs [])"
    by (simp add: ex_lib_def)
  have n: "nrows (ex_subs []) = 0"
    by (simp add: ex_subs_def)
  have i: "input_file ((ex_state [])\<lparr>enhanced_file := Some (ex_subs [])\<rparr>) = Some (ex_subs [])"
    by (simp add: ex_state_def)
  have lp: "load_progress ex_lib ((ex_state [])\<lparr>enhanced_file := Some (ex_subs [])\<rparr>) =
      (Inr fresh_progress, (ex_state [])\<lparr>enhanced_file := Some (ex_subs [])\<rparr>)"
    by (simp add: load_progress_def ex_state_def)
  have "fst (run_loop ex_lib None (ex_subs []) []
      ((ex_state [])\<lparr>enhanced_file := Some (ex_subs [])\<rparr>)) = Done"
    by (simp add: run_loop_def merge_existing_def run_iteration_def r m n)
  then have 2: "fst (enhance_data ex_lib None True
      ((ex_state [])\<lparr>enhanced_file := Some (ex_subs [])\<rparr>)) = Done"
    using enhance_data_resume [OF i r lp] by simp
  show ?thesis
    using 1 2 by simp
qed

text \<open>
  Claim C10, amended. When the enriched file exists and is read as a frame with at least
  one row and one column: if the last value of its last row is not null and the frame has
  more than 5 columns, the command logs that the enhancement has already completed and
  returns without sending a request or changing a file; otherwise (a null last value, or
  at most 5 columns) it runs \<^verbatim>\<open>enhance_data\<close> with the given resume flag, after a log line
  in the first case. When the file does not exist it runs \<^verbatim>\<open>enhance_data\<close> as well.
\<close>

theorem enhance_completion_heuristic:
  "(enhanced_file s = None \<longrightarrow> enhance L sg resume s = enhance_data L sg resume s) \<and>
   (\<forall>f d v. enhanced_file s = Some f \<and> read_csv_pandas L f = Some d \<and>
      last_row_last_value d = Inr v \<longrightarrow>
      (v \<noteq> JNull \<and> length (columns d) > 5 \<longrightarrow>
         enhance L sg resume s =
           (AlreadyCompleted,
            s\<lparr>trace := trace s @ [LogInfo ''Enhancement process has already completed.'']\<rparr>) \<and>
         requests (snd (enhance L sg resume s)) = requests s \<and>
         input_file (snd (enhance L sg resume s)) = input_file s \<and>
         enhanced_file (snd (enhance L sg resume s)) = enhanced_file s \<and>
         progress_file (snd (enhance L sg resume s)) = progress_file s) \<and>
      (v \<noteq> JNull \<and> length (columns d) \<le> 5 \<longrightarrow>
         enhance L sg resume s = enhance_data L sg resume s) \<and>
      (v = JNull \<longrightarrow>
         enhance L sg resume s =
           enhance_data L sg resume
             (s\<lparr>trace := trace s @
                [LogInfo ''Enhancement process is still ongoing. Resuming from the last state.'']\<rparr>)))"
  by (simp add: enhance_def)

theorem enhance_completion_heuristic_witness:
  "enhance ex_lib None True ((ex_state [JStr ''A''])\<lparr>enhanced_file := Some ex_done\<rparr>) =
     (AlreadyCompleted,
      (ex_state [JStr ''A''])\<lparr>enhanced_file := Some ex_done,
         trace := [LogInfo ''Enhancement process has already completed.'']\<rparr>) \<and>
   enhance ex_lib None True ((ex_state [JStr ''A''])\<lparr>enhanced_file := Some (ex_subs [JStr ''A''])\<rparr>) =
   enhance_data ex_lib None True ((ex_state [JStr ''A''])\<lparr>enhanced_file := Some (ex_subs [JStr ''A''])\<rparr>) \<and>
   enhance ex_lib None True (ex_state [JStr ''A'']) = enhance_data ex_lib None True (ex_state [JStr ''A''])"
proof -
  have r1: "read_csv_pandas ex_lib ex_done = Some ex_done"
    by (simp add: read_csv_pandas_def ex_lib_def ex_done_def fun_eq_iff)
  have l1: "last_row_last_value ex_done = Inr (JStr ''v'')"
    by (simp add: last_row_last_value_def ex_done_def)
  have c1: "length (columns ex_done) > 5"
    by (simp add: ex_done_def)
  have r2: "read_csv_pandas ex_lib (ex_subs [JStr ''A'']) = Some (ex_subs [JStr ''A''])"
    by (simp add: read_csv_pandas_def ex_lib_def ex_subs_def fun_eq_iff)
  have l2: "last_row_last_value (ex_subs [JStr ''A'']) = Inr (JStr ''x'')"
    by (simp add: last_row_last_value_def ex_subs_def)
  have c2: "length (columns (ex_subs [JStr ''A''])) \<le> 5"
    by (simp add: ex_subs_def)
  have e0: "enhanced_file (ex_state [JStr ''A'']) = None" "trace (ex_state [JStr ''A'']) = []"
    by (simp_all add: ex_state_def)
  note t1 = enhance_completion_heuristic
      [of "(ex_state [JStr ''A''])\<lparr>enhanced_file := Some ex_done\<rparr>" ex_lib None True,
        THEN conjunct2, rule_format, of ex_done ex_done "JStr ''v''", THEN conjunct1, rule_format,
        THEN conjunct1]
  have 1: "enhance ex_lib None True ((ex_state [JStr ''A''])\<lparr>enhanced_file := Some ex_done\<rparr>) =
     (AlreadyCompleted,
      (ex_state [JStr ''A''])\<lparr>enhanced_file := Some ex_done\<rparr>
        \<lparr>trace := trace ((ex_state [JStr ''A''])\<lparr>enhanced_file := Some ex_done\<rparr>) @
           [LogInfo ''Enhancement process has already completed.'']\<rparr>)"
    by (rule t1) (simp_all add: r1 l1 c1)
  note t2 = enhance_completion_heuristic
      [of "(ex_state [JStr ''A''])\<lparr>enhanced_file := Some (ex_subs [JStr ''A''])\<rparr>" ex_lib None True,
        THEN conjunct2, rule_format, of "ex_subs [JStr ''A'']" "ex_subs [JStr ''A'']" "JStr ''x''",
        THEN conjunct2, THEN conjunct1, rule_format]
  have 2: "enhance ex_lib None True
      ((ex_state [JStr ''A''])\<lparr>enhanced_file := Some (ex_subs [JStr ''A''])\<rparr>) =
    enhance_data ex_lib None True
      ((ex_state [JStr ''A''])\<lparr>enhanced_file := Some (ex_subs [JStr ''A''])\<rparr>)"
    by (rule t2) (simp_all add: r2 l2 c2)
  have 3: "enhance ex_lib None True (ex_state [JStr ''A'']) =
      enhance_data ex_lib None True (ex_state [JStr ''A''])"
    using enhance_completion_heuristic [of "ex_state [JStr ''A'']" ex_lib None True] e0(1)
    by blast
  show ?thesis
    using 1 2 3 by (simp add: e0)
qed

section \<open>Properties of the loop\<close>

lemma loop_body_skip:
  "row_getitem rows idx ''channel_id'' = Inr cid \<Longrightarrow> cid \<in> set (processed_channels s) \<Longrightarrow>
   sg \<noteq> Some BeforeSkipCheck \<Longrightarrow> loop_body L sg rows idx s = (Next, s)"
  by (simp add: loop_body_def)

lemma loop_body_top_signal:
  "loop_body L (Some BeforeSkipCheck) rows idx s = (KeyboardInterrupt, s)"
  by (simp add: loop_body_def)

text \<open>The pass of a row that is not skipped and meets no signal.\<close>

lemma loop_body_fetch:
  assumes "row_getitem rows idx ''channel_id'' = Inr cid"
    and "cid \<notin> set (processed_channels s)"
    and "row_getitem rows idx ''channel_title'' = Inr t"
    and "fetch_channel_stats L cid (requests s) = (stats, reqs)"
  shows "loop_body L None rows idx s =
     (let s1 = s\<lparr>requests := reqs, trace := trace s @ [FetchReturned cid stats]\<rparr> in
      case stats of
        None \<Rightarrow> periodic_save None idx s1
      | Some st \<Rightarrow> record_stats L None idx cid st s1)"
  using assms by (simp add: loop_body_def Let_def)

lemma periodic_save_None:
  "periodic_save None idx s = (Next, if idx mod 10 = 0 then to_csv s else s)"
  by (simp add: periodic_save_def)

lemma record_stats_None:
  "record_stats L None idx cid st s =
     (Next,
      (let s3 = s\<lparr>df := fold (df_at idx) (stats_items L st) (df s),
                  processed_channels := set_add cid (processed_channels s)\<rparr>;
           s4 = save_progress (processed_channels s3) s3
       in if idx mod 10 = 0 then to_csv s4 else s4))"
  by (simp add: record_stats_def periodic_save_None Let_def)




text \<open>Every way in which one pass can end, for any signal.\<close>

lemma loop_body_elim:
  assumes "loop_body L sg rows idx s = (c, s')"
  obtains (unchanged) "s' = s"
  | (failed_fetch) cid reqs where
      "row_getitem rows idx ''channel_id'' = Inr cid" "cid \<notin> set (processed_channels s)"
      "fetch_channel_stats L cid (requests s) = (None, reqs)"
      "s' = s\<lparr>requests := reqs, trace := trace s @ [FetchReturned cid None]\<rparr> \<or>
       s' = to_csv (s\<lparr>requests := reqs, trace := trace s @ [FetchReturned cid None]\<rparr>)"
  | (merging) cid st reqs k where
      "row_getitem rows idx ''channel_id'' = Inr cid" "cid \<notin> set (processed_channels s)"
      "fetch_channel_stats L cid (requests s) = (Some st, reqs)"
      "s' = s\<lparr>requests := reqs, trace := trace s @ [FetchReturned cid (Some st)],
             df := fold (df_at idx) (take k (stats_items L st)) (df s)\<rparr>"
  | (recorded) cid st reqs s3 where
      "row_getitem rows idx ''channel_id'' = Inr cid" "cid \<notin> set (processed_channels s)"
      "fetch_channel_stats L cid (requests s) = (Some st, reqs)"
      "s3 = s\<lparr>requests := reqs, trace := trace s @ [FetchReturned cid (Some st)],
             df := fold (df_at idx) (stats_items L st) (df s),
             processed_channels := set_add cid (processed_channels s)\<rparr>"
      "s' = s3 \<or> s' = save_progress (processed_channels s3) s3 \<or>
       s' = to_csv (save_progress (processed_channels s3) s3)"
proof (cases "sg = Some BeforeSkipCheck")
  case True
  with assms unchanged show ?thesis by (simp add: loop_body_def)
next
  case nt: False
  show ?thesis
  proof (cases "row_getitem rows idx ''channel_id''")
    case (Inl e)
    with assms nt unchanged show ?thesis by (simp add: loop_body_def)
  next
    case (Inr cid)
    note cid = this
    show ?thesis
    proof (cases "cid \<in> set (processed_channels s)")
      case True
      with assms nt cid unchanged show ?thesis by (simp add: loop_body_def)
    next
      case nin: False
      show ?thesis
      proof (cases "row_getitem rows idx ''channel_title''")
        case (Inl e)
        with assms nt cid nin unchanged show ?thesis by (simp add: loop_body_def)
      next
        case (Inr t)
        note t = this
        show ?thesis
        proof (cases "sg = Some InFetch")
          case True
          with assms nt cid nin t unchanged show ?thesis by (simp add: loop_body_def)
        next
          case nf: False
          obtain stats reqs where f: "fetch_channel_stats L cid (requests s) = (stats, reqs)"
            by (cases "fetch_channel_stats L cid (requests s)")
          show ?thesis
          proof (cases stats)
            case None
            with assms nt cid nin t nf f
            have "s' = s\<lparr>requests := reqs, trace := trace s @ [FetchReturned cid None]\<rparr> \<or>
                s' = to_csv (s\<lparr>requests := reqs, trace := trace s @ [FetchReturned cid None]\<rparr>)"
              by (auto simp add: loop_body_def periodic_save_def Let_def split: if_splits)
            with cid nin f None failed_fetch show ?thesis by blast
          next
            case (Some st)
            with assms nt cid nin t nf f
            have r: "record_stats L sg idx cid st
                (s\<lparr>requests := reqs, trace := trace s @ [FetchReturned cid (Some st)]\<rparr>) = (c, s')"
              by (simp add: loop_body_def Let_def)
            show ?thesis
            proof (cases "\<exists>k. sg = Some (InMerge k)")
              case True
              then obtain k where "sg = Some (InMerge k)" by blast
              with r have "s' = s\<lparr>requests := reqs, trace := trace s @ [FetchReturned cid (Some st)],
                  df := fold (df_at idx) (take k (stats_items L st)) (df s)\<rparr>"
                by (auto simp add: record_stats_def)
              with cid nin f Some merging show ?thesis by blast
            next
              case False
              then have nm: "\<And>k. sg \<noteq> Some (InMerge k)" by blast
              show ?thesis
              proof (cases "sg = Some BeforeAdd")
                case True
                with r have "s' = s\<lparr>requests := reqs, trace := trace s @ [FetchReturned cid (Some st)],
                  df := fold (df_at idx) (take (length (stats_items L st)) (stats_items L st)) (df s)\<rparr>"
                  by (auto simp add: record_stats_def)
                with cid nin f Some merging show ?thesis by blast
              next
                case False
                with r nm nt nf
                have "s' = s\<lparr>requests := reqs, trace := trace s @ [FetchReturned cid (Some st)],
                       df := fold (df_at idx) (stats_items L st) (df s),
                       processed_channels := set_add cid (processed_channels s)\<rparr> \<or>
                   s' = save_progress (set_add cid (processed_channels s))
                     (s\<lparr>requests := reqs, trace := trace s @ [FetchReturned cid (Some st)],
                       df := fold (df_at idx) (stats_items L st) (df s),
                       processed_channels := set_add cid (processed_channels s)\<rparr>) \<or>
                   s' = to_csv (save_progress (set_add cid (processed_channels s))
                     (s\<lparr>requests := reqs, trace := trace s @ [FetchReturned cid (Some st)],
                       df := fold (df_at idx) (stats_items L st) (df s),
                       processed_channels := set_add cid (processed_channels s)\<rparr>))"
                  by (cases sg; (cases "the sg")?)
                     (auto simp add: record_stats_def periodic_save_def Let_def split: if_splits)
                with cid nin f Some recorded [OF cid nin _ refl] show ?thesis by simp
              qed
            qed
          qed
        qed
      qed
    qed
  qed
qed

text \<open>A property that every pass preserves holds after the loop, however it ends.\<close>

lemma iterate_inv:
  assumes "iterate L sg rows idxs s = (c, s')"
    and "P s"
    and step: "\<And>p idx t c' t'. P t \<Longrightarrow> idx \<in> set idxs \<Longrightarrow> loop_body L p rows idx t = (c', t') \<Longrightarrow> P t'"
  shows "P s'"
  using assms(1,2) step
proof (induction idxs arbitrary: s)
  case Nil
  then show ?case by simp
next
  case (Cons idx rest)
  obtain c1 s1 where b: "loop_body L (signal_at sg idx) rows idx s = (c1, s1)"
    by (cases "loop_body L (signal_at sg idx) rows idx s")
  have mem: "idx \<in> set (idx # rest)" by simp
  have p1: "P s1"
    by (rule Cons.prems(3) [OF Cons.prems(2) mem b])
  have step': "\<And>p i t c' t'. P t \<Longrightarrow> i \<in> set rest \<Longrightarrow> loop_body L p rows i t = (c', t') \<Longrightarrow> P t'"
  proof -
    fix p i t c' t'
    assume "P t" "i \<in> set rest" "loop_body L p rows i t = (c', t')"
    moreover have "i \<in> set rest \<Longrightarrow> i \<in> set (idx # rest)" by simp
    ultimately show "P t'" using Cons.prems(3) by blast
  qed
  show ?case
  proof (cases c1)
    case Next
    with Cons.prems(1) b have "iterate L sg rows rest s1 = (c, s')" by simp
    then show ?thesis
      by (rule Cons.IH [OF _ p1 step'])
  next
    case (Raise e)
    with Cons.prems(1) b p1 show ?thesis by simp
  next
    case KeyboardInterrupt
    with Cons.prems(1) b p1 show ?thesis by simp
  qed
qed

text \<open>What a pass does to the trace, the checkpoint set and the checkpoint file.\<close>

lemma loop_body_trace:
  assumes "loop_body L sg rows idx s = (c, s')"
  shows "\<exists>evs. trace s' = trace s @ evs \<and> RemovedProgress \<notin> set evs"
  using assms
proof (cases rule: loop_body_elim)
  case unchanged
  then show ?thesis by simp
next
  case (failed_fetch cid reqs)
  from failed_fetch(4) show ?thesis
    by (elim disjE) (simp_all add: to_csv_def)
next
  case (merging cid st reqs k)
  then show ?thesis by simp
next
  case (recorded cid st reqs s3)
  have "trace s3 = trace s @ [FetchReturned cid (Some st)]"
    by (simp add: recorded(4))
  with recorded(5) show ?thesis
    by (elim disjE) (simp_all add: to_csv_def save_progress_def)
qed

lemma loop_body_processed:
  assumes "loop_body L sg rows idx s = (c, s')"
  shows "processed_channels s' = processed_channels s \<or>
     (\<exists>cid st reqs. row_getitem rows idx ''channel_id'' = Inr cid \<and>
        cid \<notin> set (processed_channels s) \<and>
        fetch_channel_stats L cid (requests s) = (Some st, reqs) \<and>
        processed_channels s' = processed_channels s @ [cid])"
  using assms
proof (cases rule: loop_body_elim)
  case unchanged
  then show ?thesis by simp
next
  case (failed_fetch cid reqs)
  from failed_fetch(4) show ?thesis
    by (elim disjE) (simp_all add: to_csv_def)
next
  case (merging cid st reqs k)
  then show ?thesis by simp
next
  case (recorded cid st reqs s3)
  have "processed_channels s3 = processed_channels s @ [cid]"
    using recorded(2) by (simp add: recorded(4) set_add_def)
  with recorded(5) have "processed_channels s' = processed_channels s @ [cid]"
    by (elim disjE) (simp_all add: to_csv_def save_progress_def)
  with recorded(1-3) show ?thesis by blast
qed

lemma loop_body_progress_file:
  assumes "loop_body L sg rows idx s = (c, s')"
  shows "progress_file s' = progress_file s \<or>
     progress_file s' = Some (JObj [(''processed_channels'', JArr (processed_channels s'))])"
  using assms
proof (cases rule: loop_body_elim)
  case unchanged
  then show ?thesis by simp
next
  case (failed_fetch cid reqs)
  from failed_fetch(4) show ?thesis
    by (elim disjE) (simp_all add: to_csv_def)
next
  case (merging cid st reqs k)
  then show ?thesis by simp
next
  case (recorded cid st reqs s3)
  have "progress_file s3 = progress_file s"
    by (simp add: recorded(4))
  with recorded(5) show ?thesis
    by (elim disjE) (simp_all add: to_csv_def save_progress_def)
qed

lemma iterate_trace:
  assumes "iterate L sg rows idxs s = (c, s')"
  shows "\<exists>evs. trace s' = trace s @ evs \<and> RemovedProgress \<notin> set evs"
proof (rule iterate_inv [OF assms])
  show "\<exists>evs. trace s = trace s @ evs \<and> RemovedProgress \<notin> set evs" by simp
next
  fix p idx c' and t t' :: state
  assume "\<exists>evs. trace t = trace s @ evs \<and> RemovedProgress \<notin> set evs"
  then obtain evs where e: "trace t = trace s @ evs" "RemovedProgress \<notin> set evs" by blast
  assume "loop_body L p rows idx t = (c', t')"
  then obtain evs' where e': "trace t' = trace t @ evs'" "RemovedProgress \<notin> set evs'"
    using loop_body_trace by blast
  have "trace t' = trace s @ (evs @ evs')" "RemovedProgress \<notin> set (evs @ evs')"
    using e e' by simp_all
  then show "\<exists>evs. trace t' = trace s @ evs \<and> RemovedProgress \<notin> set evs" by blast
qed

lemma iterate_processed_mono:
  assumes "iterate L sg rows idxs s = (c, s')"
  shows "set (processed_channels s) \<subseteq> set (processed_channels s')"
proof (rule iterate_inv [OF assms])
  show "set (processed_channels s) \<subseteq> set (processed_channels s)" by simp
next
  fix p idx c' and t t' :: state
  assume a: "set (processed_channels s) \<subseteq> set (processed_channels t)"
  assume "loop_body L p rows idx t = (c', t')"
  then have "set (processed_channels t) \<subseteq> set (processed_channels t')"
    using loop_body_processed by fastforce
  with a show "set (processed_channels s) \<subseteq> set (processed_channels t')" by blast
qed

text \<open>The signal at the top of the pass of a row is delivered: the passes before it end
  normally when the two columns that the loop reads exist.\<close>

lemma loop_body_no_signal_Next:
  assumes "''channel_id'' \<in> set (columns rows)" "''channel_title'' \<in> set (columns rows)"
  shows "fst (loop_body L None rows idx s) = Next"
proof -
  have c: "row_getitem rows idx ''channel_id'' = Inr (cells rows idx ''channel_id'')"
    and t: "row_getitem rows idx ''channel_title'' = Inr (cells rows idx ''channel_title'')"
    using assms by (simp_all add: row_getitem_def)
  show ?thesis
  proof (cases "cells rows idx ''channel_id'' \<in> set (processed_channels s)")
    case True
    then show ?thesis using loop_body_skip [OF c, of s None L] by simp
  next
    case False
    obtain stats reqs where
      f: "fetch_channel_stats L (cells rows idx ''channel_id'') (requests s) = (stats, reqs)"
      by (cases "fetch_channel_stats L (cells rows idx ''channel_id'') (requests s)")
    show ?thesis
      by (cases stats)
         (simp_all add: loop_body_fetch [OF c False t f] periodic_save_None record_stats_None Let_def)
  qed
qed

lemma iterate_top_signal:
  assumes "''channel_id'' \<in> set (columns rows)" "''channel_title'' \<in> set (columns rows)"
    and "i \<in> set idxs"
  shows "fst (iterate L (Some (i, BeforeSkipCheck)) rows idxs s) = KeyboardInterrupt"
  using assms(3)
proof (induction idxs arbitrary: s)
  case Nil
  then show ?case by simp
next
  case (Cons idx rest)
  show ?case
  proof (cases "i = idx")
    case True
    then show ?thesis
      by (simp add: signal_at_def loop_body_top_signal)
  next
    case False
    with Cons.prems have m: "i \<in> set rest" by simp
    obtain c1 s1 where b: "loop_body L None rows idx s = (c1, s1)"
      by (cases "loop_body L None rows idx s")
    have "c1 = Next"
      using loop_body_no_signal_Next [OF assms(1,2), of L idx s] b by simp
    with b False show ?thesis
      using Cons.IH [OF m, of s1] by (simp add: signal_at_def)
  qed
qed

lemma run_iteration_Interrupted:
  assumes "run_iteration L sg d pcs s = (Interrupted, s')"
  shows "\<exists>t'. iterate L sg d [0..<nrows d] (s\<lparr>df := d, processed_channels := pcs\<rparr>) =
           (KeyboardInterrupt, t') \<and>
         s' = save_progress (processed_channels t') (to_csv t')"
proof -
  obtain c t' where i: "iterate L sg d [0..<nrows d] (s\<lparr>df := d, processed_channels := pcs\<rparr>) = (c, t')"
    by (cases "iterate L sg d [0..<nrows d] (s\<lparr>df := d, processed_channels := pcs\<rparr>)")
  show ?thesis
    using assms i by (cases c) (simp_all add: run_iteration_def failed_def)
qed

lemma load_progress_trace:
  "\<exists>evs. trace (snd (load_progress L s)) = trace s @ evs \<and> RemovedProgress \<notin> set evs"
  by (simp add: load_progress_def split: option.splits sum.splits)

lemma enhance_data_Interrupted:
  assumes "enhance_data L sg resume s = (Interrupted, s')"
  shows "\<exists>d pcs s1. run_iteration L sg d pcs s1 = (Interrupted, s') \<and>
     (\<exists>evs. trace s1 = trace s @ evs \<and> RemovedProgress \<notin> set evs)"
proof -
  obtain r s1 where l: "(if resume then load_progress L s else (Inr fresh_progress, s)) = (r, s1)"
    by (cases "if resume then load_progress L s else (Inr fresh_progress, s)")
  have tr: "\<exists>evs. trace s1 = trace s @ evs \<and> RemovedProgress \<notin> set evs"
  proof (cases resume)
    case True
    with l have "s1 = snd (load_progress L s)" by simp
    then show ?thesis using load_progress_trace by simp
  next
    case False
    with l show ?thesis by simp
  qed
  from assms l have "\<exists>d pcs. run_loop L sg d pcs s1 = (Interrupted, s')"
    unfolding enhance_data_def
    by (auto simp add: failed_def split: option.splits sum.splits)
  then obtain d pcs where "run_loop L sg d pcs s1 = (Interrupted, s')" by blast
  then have "\<exists>d'. run_iteration L sg d' pcs s1 = (Interrupted, s')"
    unfolding run_loop_def by (auto simp add: failed_def split: sum.splits)
  with tr show ?thesis by blast
qed

text \<open>
  Claim C2. A run of \<^verbatim>\<open>enhance_data\<close> that ends by cancellation has written the whole
  dataset and then the checkpoint as its last two actions: the dataset file holds the frame
  in memory, the checkpoint file holds the set in memory, and the checkpoint file was not
  removed at any moment of the run. Every \<^verbatim>\<open>KeyboardInterrupt\<close> that reaches the loop ends
  the run in this way, with the identifiers of the loaded checkpoint still in the set; and
  a signal at the top of the pass of any row is delivered, when the frame has the two
  columns that the loop reads.
\<close>

theorem interrupt_flushes_both:
  "(\<forall>s'. enhance_data L sg resume s = (Interrupted, s') \<longrightarrow>
      enhanced_file s' = Some (df s') \<and>
      progress_file s' = Some (JObj [(''processed_channels'', JArr (processed_channels s'))]) \<and>
      (\<exists>evs. trace s' = trace s @ evs @ [WroteCsv, WroteProgress] \<and>
         RemovedProgress \<notin> set evs)) \<and>
   (\<forall>d pcs t t'.
      iterate L sg d [0..<nrows d] (t\<lparr>df := d, processed_channels := pcs\<rparr>) =
        (KeyboardInterrupt, t') \<longrightarrow>
      run_iteration L sg d pcs t =
        (Interrupted, save_progress (processed_channels t') (to_csv t')) \<and>
      set pcs \<subseteq> set (processed_channels t')) \<and>
   (\<forall>d pcs t i.
      i < nrows d \<and> ''channel_id'' \<in> set (columns d) \<and> ''channel_title'' \<in> set (columns d) \<longrightarrow>
      fst (run_iteration L (Some (i, BeforeSkipCheck)) d pcs t) = Interrupted)"
proof (intro conjI allI impI)
  fix s'
  assume "enhance_data L sg resume s = (Interrupted, s')"
  then obtain d pcs s1 evs0 where r: "run_iteration L sg d pcs s1 = (Interrupted, s')"
    and e0: "trace s1 = trace s @ evs0" "RemovedProgress \<notin> set evs0"
    using enhance_data_Interrupted by blast
  obtain t' where i: "iterate L sg d [0..<nrows d] (s1\<lparr>df := d, processed_channels := pcs\<rparr>) =
      (KeyboardInterrupt, t')"
    and s': "s' = save_progress (processed_channels t') (to_csv t')"
    using run_iteration_Interrupted [OF r] by blast
  obtain evs1 where e1: "trace t' = trace (s1\<lparr>df := d, processed_channels := pcs\<rparr>) @ evs1"
    "RemovedProgress \<notin> set evs1"
    using iterate_trace [OF i] by blast
  show "enhanced_file s' = Some (df s')"
    by (simp add: s' save_progress_def to_csv_def)
  show "progress_file s' = Some (JObj [(''processed_channels'', JArr (processed_channels s'))])"
    by (simp add: s' save_progress_def to_csv_def)
  have "trace s' = trace s @ (evs0 @ evs1) @ [WroteCsv, WroteProgress]"
    "RemovedProgress \<notin> set (evs0 @ evs1)"
    using e0 e1 by (simp_all add: s' save_progress_def to_csv_def)
  then show "\<exists>evs. trace s' = trace s @ evs @ [WroteCsv, WroteProgress] \<and>
      RemovedProgress \<notin> set evs"
    by blast
next
  fix d pcs and t t' :: state
  assume i: "iterate L sg d [0..<nrows d] (t\<lparr>df := d, processed_channels := pcs\<rparr>) =
      (KeyboardInterrupt, t')"
  then show "run_iteration L sg d pcs t =
      (Interrupted, save_progress (processed_channels t') (to_csv t'))"
    by (simp add: run_iteration_def)
  show "set pcs \<subseteq> set (processed_channels t')"
    using iterate_processed_mono [OF i] by simp
next
  fix d :: DataFrame and pcs and t :: state and i
  assume a: "i < nrows d \<and> ''channel_id'' \<in> set (columns d) \<and> ''channel_title'' \<in> set (columns d)"
  then have "i \<in> set [0..<nrows d]" by simp
  with a have "fst (iterate L (Some (i, BeforeSkipCheck)) d [0..<nrows d]
      (t\<lparr>df := d, processed_channels := pcs\<rparr>)) = KeyboardInterrupt"
    using iterate_top_signal by blast
  then show "fst (run_iteration L (Some (i, BeforeSkipCheck)) d pcs t) = Interrupted"
    by (cases "iterate L (Some (i, BeforeSkipCheck)) d [0..<nrows d]
      (t\<lparr>df := d, processed_channels := pcs\<rparr>)") (simp add: run_iteration_def)
qed

lemma ex_read_subs:
  "JStr ''--'' \<notin> set ids \<Longrightarrow> read_csv_pandas ex_lib (ex_subs ids) = Some (ex_subs ids)"
  by (auto simp add: read_csv_pandas_def ex_lib_def ex_subs_def fun_eq_iff dest: nth_mem)

lemma ex_enhance_data:
  assumes "JStr ''--'' \<notin> set ids"
  shows "enhance_data ex_lib sg True (ex_state ids) =
     run_iteration ex_lib sg (ex_subs ids) [] (ex_state ids)"
proof -
  have i: "input_file (ex_state ids) = Some (ex_subs ids)"
    by (simp add: ex_state_def)
  have l: "load_progress ex_lib (ex_state ids) = (Inr fresh_progress, ex_state ids)"
    by (simp add: load_progress_def ex_state_def)
  have "run_loop ex_lib sg (ex_subs ids) [] (ex_state ids) =
      run_iteration ex_lib sg (ex_subs ids) [] (ex_state ids)"
    by (simp add: run_loop_def merge_existing_def ex_state_def)
  then show ?thesis
    using enhance_data_resume [OF i ex_read_subs [OF assms] l] by simp
qed

theorem interrupt_flushes_both_witness:
  "fst (enhance_data ex_lib (Some (0, BeforeSkipCheck)) True (ex_state [JStr ''A''])) = Interrupted \<and>
   enhanced_file (snd (enhance_data ex_lib (Some (0, BeforeSkipCheck)) True (ex_state [JStr ''A'']))) =
     Some (df (snd (enhance_data ex_lib (Some (0, BeforeSkipCheck)) True (ex_state [JStr ''A''])))) \<and>
   progress_file (snd (enhance_data ex_lib (Some (0, BeforeSkipCheck)) True (ex_state [JStr ''A'']))) =
     Some (JObj [(''processed_channels'', JArr (processed_channels
       (snd (enhance_data ex_lib (Some (0, BeforeSkipCheck)) True (ex_state [JStr ''A''])))))])"
proof -
  note t = interrupt_flushes_both [of ex_lib "Some (0, BeforeSkipCheck)" True "ex_state [JStr ''A'']"]
  have c: "0 < nrows (ex_subs [JStr ''A'']) \<and> ''channel_id'' \<in> set (columns (ex_subs [JStr ''A''])) \<and>
      ''channel_title'' \<in> set (columns (ex_subs [JStr ''A'']))"
    by (simp add: ex_subs_def)
  have "fst (run_iteration ex_lib (Some (0, BeforeSkipCheck)) (ex_subs [JStr ''A'']) []
      (ex_state [JStr ''A''])) = Interrupted"
    using t c by blast
  then have 1: "fst (enhance_data ex_lib (Some (0, BeforeSkipCheck)) True (ex_state [JStr ''A''])) =
      Interrupted"
    by (simp add: ex_enhance_data)
  then have "enhance_data ex_lib (Some (0, BeforeSkipCheck)) True (ex_state [JStr ''A'']) =
      (Interrupted, snd (enhance_data ex_lib (Some (0, BeforeSkipCheck)) True (ex_state [JStr ''A''])))"
    by (simp add: prod_eq_iff)
  with t 1 show ?thesis by blast
qed

section \<open>Properties of the merge into the frame\<close>

lemma df_at_columns: "set (columns (df_at idx kv d)) = insert (fst kv) (set (columns d))"
  by (auto simp add: df_at_def)

lemma df_at_other_row:
  "i \<noteq> idx \<Longrightarrow> c \<in> set (columns d) \<Longrightarrow> cells (df_at idx kv d) i c = cells d i c"
  by (auto simp add: df_at_def)

lemma df_at_other_column:
  "c \<noteq> fst kv \<Longrightarrow> cells (df_at idx kv d) i c = cells d i c"
  by (simp add: df_at_def)

lemma df_at_cell: "cells (df_at idx kv d) idx (fst kv) = snd kv"
  by (simp add: df_at_def)

lemma fold_df_at_columns:
  "set (columns (fold (df_at idx) kvs d)) = set (columns d) \<union> fst ` set kvs"
  by (induction kvs arbitrary: d) (auto simp add: df_at_columns)

lemma fold_df_at_other_row:
  "i \<noteq> idx \<Longrightarrow> c \<in> set (columns d) \<Longrightarrow> cells (fold (df_at idx) kvs d) i c = cells d i c"
proof (induction kvs arbitrary: d)
  case Nil
  then show ?case by simp
next
  case (Cons kv kvs)
  have "c \<in> set (columns (df_at idx kv d))"
    using Cons.prems(2) by (simp add: df_at_columns)
  then have "cells (fold (df_at idx) kvs (df_at idx kv d)) i c = cells (df_at idx kv d) i c"
    using Cons.IH Cons.prems(1) by blast
  then show ?case
    using Cons.prems by (simp add: df_at_other_row)
qed

lemma fold_df_at_other_column:
  "c \<notin> fst ` set kvs \<Longrightarrow> cells (fold (df_at idx) kvs d) i c = cells d i c"
  by (induction kvs arbitrary: d) (simp_all add: df_at_other_column)

lemma fold_df_at_new_column:
  "i \<noteq> idx \<Longrightarrow> c \<notin> set (columns d) \<Longrightarrow> c \<in> fst ` set kvs \<Longrightarrow>
   cells (fold (df_at idx) kvs d) i c = JNull"
proof (induction kvs arbitrary: d)
  case Nil
  then show ?case by simp
next
  case (Cons kv kvs)
  show ?case
  proof (cases "c = fst kv")
    case True
    then have n: "cells (df_at idx kv d) i c = JNull" and m: "c \<in> set (columns (df_at idx kv d))"
      using Cons.prems(1,2) by (simp_all add: df_at_def)
    show ?thesis
      using fold_df_at_other_row [OF Cons.prems(1) m, of kvs] n by simp
  next
    case False
    then have "c \<notin> set (columns (df_at idx kv d))" "c \<in> fst ` set kvs"
      using Cons.prems(2,3) by (auto simp add: df_at_columns)
    then show ?thesis
      using Cons.IH [OF Cons.prems(1)] by simp
  qed
qed

lemma fold_df_at_cell:
  "distinct (map fst kvs) \<Longrightarrow> kv \<in> set kvs \<Longrightarrow>
   cells (fold (df_at idx) kvs d) idx (fst kv) = snd kv"
proof (induction kvs arbitrary: d)
  case Nil
  then show ?case by simp
next
  case (Cons x kvs)
  show ?case
  proof (cases "kv = x")
    case True
    then have "fst kv \<notin> fst ` set kvs"
      using Cons.prems(1) by simp
    then show ?thesis
      using True by (simp add: fold_df_at_other_column df_at_cell)
  next
    case False
    then show ?thesis
      using Cons by simp
  qed
qed

lemma stats_dict_keys:
  "map fst (stats_dict L st) =
     [''avatar'', ''name'', ''username'', ''profile_url'', ''subscribers'', ''total_views'',
      ''uploads'', ''country'', ''channel_type'', ''created'', ''subscribers_last_30_days'',
      ''subscribers_growth_30_days'', ''estimated_monthly_earnings'',
      ''video_views_last_30_days'', ''video_views_growth_30_days'', ''recent_daily_stats_json'',
      ''daily_average_stats_json'', ''weekly_average_stats_json'',
      ''monthly_average_stats_json'', ''last_video_upload_date'', ''last_50_videos_stats_json'']"
  unfolding stats_dict_def by (simp only: list.map fst_conv)

lemma stats_dict_distinct: "distinct (map fst (stats_dict L st))"
  unfolding stats_dict_keys by simp

lemma stats_items_distinct: "distinct (map fst (stats_items L st))"
proof -
  have "map fst (stats_items L st) = map ((@) ''socialblade_'') (map fst (stats_dict L st))"
    by (simp add: stats_items_def comp_def)
  moreover have "inj_on ((@) ''socialblade_'') (set (map fst (stats_dict L st)))"
    by (simp add: inj_on_def)
  ultimately show ?thesis
    using stats_dict_distinct [of L st] by (simp only: distinct_map)
qed


lemma row_holds_merged: "row_holds L (fold (df_at idx) (stats_items L st) d) idx st"
proof -
  have "fst kv \<in> set (columns (fold (df_at idx) (stats_items L st) d)) \<and>
      cells (fold (df_at idx) (stats_items L st) d) idx (fst kv) = snd kv"
    if "kv \<in> set (stats_items L st)" for kv
    using that fold_df_at_cell [OF stats_items_distinct that]
    by (simp add: fold_df_at_columns)
  then show ?thesis
    unfolding row_holds_def list_all_iff by blast
qed

lemma row_holds_other_row:
  assumes "row_holds L d idx st" "idx' \<noteq> idx"
  shows "row_holds L (fold (df_at idx') kvs d) idx st"
  using assms
  unfolding row_holds_def list_all_iff
  by (simp add: fold_df_at_other_row fold_df_at_columns)

section \<open>The checkpoint and the dataset during the loop\<close>

lemma loop_body_trace_mono:
  assumes "loop_body L p rows idx t = (c', t')"
  shows "set (trace t) \<subseteq> set (trace t')"
  using loop_body_trace [OF assms] by auto

text \<open>A row that holds the result of a checkpointed subject keeps it in every later pass:
  only the row of the pass is assigned, and that pass is for a subject that is not
  checkpointed.\<close>

lemma loop_body_keeps_row:
  assumes b: "loop_body L p rows idx t = (c', t')"
    and r: "row_getitem rows i ''channel_id'' = Inr cid"
    and m: "cid \<in> set (processed_channels t)"
    and h: "row_holds L (df t) i st"
  shows "row_holds L (df t') i st"
  using b
proof (cases rule: loop_body_elim)
  case unchanged
  with h show ?thesis by simp
next
  case (failed_fetch cid' reqs)
  from failed_fetch(4) have "df t' = df t"
    by (elim disjE) (simp_all add: to_csv_def)
  with h show ?thesis by simp
next
  case (merging cid' st' reqs k)
  have "idx \<noteq> i"
    using merging(1,2) r m by auto
  then show ?thesis
    using row_holds_other_row [OF h] by (simp add: merging(4))
next
  case (recorded cid' st' reqs s3)
  have ne: "idx \<noteq> i"
    using recorded(1,2) r m by auto
  have "df s3 = fold (df_at idx) (stats_items L st') (df t)"
    by (simp add: recorded(4))
  with recorded(5) have "df t' = fold (df_at idx) (stats_items L st') (df t)"
    by (elim disjE) (simp_all add: to_csv_def save_progress_def)
  then show ?thesis
    using row_holds_other_row [OF h ne] by simp
qed

text \<open>An identifier enters the set only in the pass of a row that carries it, after the
  result of its fetch was merged into that row.\<close>

lemma loop_body_new_member:
  assumes b: "loop_body L p rows idx t = (c', t')"
    and m: "cid \<in> set (processed_channels t')" "cid \<notin> set (processed_channels t)"
  shows "\<exists>st. row_getitem rows idx ''channel_id'' = Inr cid \<and>
     FetchReturned cid (Some st) \<in> set (trace t') \<and> row_holds L (df t') idx st"
  using b
proof (cases rule: loop_body_elim)
  case unchanged
  with m show ?thesis by simp
next
  case (failed_fetch cid' reqs)
  from failed_fetch(4) have "processed_channels t' = processed_channels t"
    by (elim disjE) (simp_all add: to_csv_def)
  with m show ?thesis by simp
next
  case (merging cid' st' reqs k)
  with m show ?thesis by simp
next
  case (recorded cid' st' reqs s3)
  have p3: "processed_channels s3 = set_add cid' (processed_channels t)"
    and d3: "df s3 = fold (df_at idx) (stats_items L st') (df t)"
    and t3: "trace s3 = trace t @ [FetchReturned cid' (Some st')]"
    by (simp_all add: recorded(4))
  from recorded(5) have f: "processed_channels t' = processed_channels s3 \<and> df t' = df s3 \<and>
      set (trace s3) \<subseteq> set (trace t')"
    by (elim disjE) (auto simp add: to_csv_def save_progress_def)
  have "cid = cid'"
    using m f p3 by (auto simp add: set_add_def split: if_splits)
  then show ?thesis
    using recorded(1) f d3 t3 row_holds_merged by auto
qed

lemma iterate_rows_hold:
  assumes "iterate L sg rows idxs s = (c, s')"
  shows "\<forall>cid \<in> set (processed_channels s') - set (processed_channels s).
     \<exists>idx st. idx \<in> set idxs \<and> row_getitem rows idx ''channel_id'' = Inr cid \<and>
       FetchReturned cid (Some st) \<in> set (trace s') \<and> row_holds L (df s') idx st"
proof (rule iterate_inv [OF assms])
  show "\<forall>cid \<in> set (processed_channels s) - set (processed_channels s).
     \<exists>idx st. idx \<in> set idxs \<and> row_getitem rows idx ''channel_id'' = Inr cid \<and>
       FetchReturned cid (Some st) \<in> set (trace s) \<and> row_holds L (df s) idx st"
    by simp
next
  fix p idx c' and t t' :: state
  assume inv: "\<forall>cid \<in> set (processed_channels t) - set (processed_channels s).
     \<exists>idx st. idx \<in> set idxs \<and> row_getitem rows idx ''channel_id'' = Inr cid \<and>
       FetchReturned cid (Some st) \<in> set (trace t) \<and> row_holds L (df t) idx st"
    and mem: "idx \<in> set idxs"
    and b: "loop_body L p rows idx t = (c', t')"
  show "\<forall>cid \<in> set (processed_channels t') - set (processed_channels s).
     \<exists>idx st. idx \<in> set idxs \<and> row_getitem rows idx ''channel_id'' = Inr cid \<and>
       FetchReturned cid (Some st) \<in> set (trace t') \<and> row_holds L (df t') idx st"
  proof
    fix cid
    assume c: "cid \<in> set (processed_channels t') - set (processed_channels s)"
    show "\<exists>idx st. idx \<in> set idxs \<and> row_getitem rows idx ''channel_id'' = Inr cid \<and>
       FetchReturned cid (Some st) \<in> set (trace t') \<and> row_holds L (df t') idx st"
    proof (cases "cid \<in> set (processed_channels t)")
      case True
      with c inv obtain i st where i: "i \<in> set idxs" "row_getitem rows i ''channel_id'' = Inr cid"
        "FetchReturned cid (Some st) \<in> set (trace t)" "row_holds L (df t) i st"
        by blast
      have "FetchReturned cid (Some st) \<in> set (trace t')"
        using i(3) loop_body_trace_mono [OF b] by blast
      moreover have "row_holds L (df t') i st"
        by (rule loop_body_keeps_row [OF b i(2) True i(4)])
      ultimately show ?thesis
        using i(1,2) by blast
    next
      case False
      with c have "cid \<in> set (processed_channels t')" by simp
      then show ?thesis
        using loop_body_new_member [OF b _ False] mem by blast
    qed
  qed
qed

lemma iterate_progress_file:
  assumes "iterate L sg rows idxs s = (c, s')"
  shows "progress_file s' = progress_file s \<or>
     (\<exists>pcs. progress_file s' = Some (JObj [(''processed_channels'', JArr pcs)]) \<and>
        set pcs \<subseteq> set (processed_channels s'))"
proof (rule iterate_inv [OF assms])
  show "progress_file s = progress_file s \<or>
     (\<exists>pcs. progress_file s = Some (JObj [(''processed_channels'', JArr pcs)]) \<and>
        set pcs \<subseteq> set (processed_channels s))"
    by simp
next
  fix p idx c' and t t' :: state
  assume inv: "progress_file t = progress_file s \<or>
     (\<exists>pcs. progress_file t = Some (JObj [(''processed_channels'', JArr pcs)]) \<and>
        set pcs \<subseteq> set (processed_channels t))"
    and b: "loop_body L p rows idx t = (c', t')"
  have mono: "set (processed_channels t) \<subseteq> set (processed_channels t')"
    using loop_body_processed [OF b] by auto
  from loop_body_progress_file [OF b]
  show "progress_file t' = progress_file s \<or>
     (\<exists>pcs. progress_file t' = Some (JObj [(''processed_channels'', JArr pcs)]) \<and>
        set pcs \<subseteq> set (processed_channels t'))"
  proof
    assume "progress_file t' = progress_file t"
    with inv mono show ?thesis by auto
  next
    assume "progress_file t' = Some (JObj [(''processed_channels'', JArr (processed_channels t'))])"
    then show ?thesis by blast
  qed
qed

lemma run_iteration_dataset_current:
  assumes "run_iteration L sg d pcs t = (out, t')" "out = Done \<or> out = Interrupted"
  shows "enhanced_file t' = Some (df t')"
proof -
  obtain c u where i: "iterate L sg d [0..<nrows d] (t\<lparr>df := d, processed_channels := pcs\<rparr>) = (c, u)"
    by (cases "iterate L sg d [0..<nrows d] (t\<lparr>df := d, processed_channels := pcs\<rparr>)")
  show ?thesis
    using assms i
    by (cases c)
       (auto simp add: run_iteration_def failed_def remove_progress_def to_csv_def
          save_progress_def split: option.splits)
qed

text \<open>The fields of the state after the pass of a subject whose fetch returned a result,
  when no signal arrives.\<close>

lemma loop_body_success:
  assumes "row_getitem rows idx ''channel_id'' = Inr cid"
    and "cid \<notin> set (processed_channels t)"
    and "row_getitem rows idx ''channel_title'' = Inr ttl"
    and "fetch_channel_stats L cid (requests t) = (Some st, reqs)"
  shows "fst (loop_body L None rows idx t) = Next"
    and "processed_channels (snd (loop_body L None rows idx t)) = processed_channels t @ [cid]"
    and "df (snd (loop_body L None rows idx t)) = fold (df_at idx) (stats_items L st) (df t)"
    and "progress_file (snd (loop_body L None rows idx t)) =
           Some (JObj [(''processed_channels'', JArr (processed_channels t @ [cid]))])"
    and "enhanced_file (snd (loop_body L None rows idx t)) =
           (if idx mod 10 = 0 then Some (fold (df_at idx) (stats_items L st) (df t))
            else enhanced_file t)"
    and "requests (snd (loop_body L None rows idx t)) = reqs"
    and "FetchReturned cid (Some st) \<in> set (trace (snd (loop_body L None rows idx t)))"
  using assms(2)
  by (simp_all add: loop_body_fetch [OF assms] record_stats_None Let_def save_progress_def
      to_csv_def set_add_def)

lemma ex_fetch:
  assumes "c \<noteq> ''gone''"
  shows "fetch_channel_stats ex_lib (JStr c) reqs =
     (Some (with_blocks ex_lib ex_page (profile_stats ex_lib ex_page)),
      reqs @ [ProfileGet (JStr c), VideoPost (JStr c)])"
proof -
  have v: "fetch_video_stats ex_lib (JStr c) (reqs @ [ProfileGet (JStr c)]) =
      (None, (reqs @ [ProfileGet (JStr c)]) @ [VideoPost (JStr c)])"
    by (rule fetch_video_stats_fails) (simp add: ex_lib_def ex_http_def)
  show ?thesis
    using assms fetch_channel_stats_ok [of ex_lib reqs "JStr c"
        "\<lparr>status_code = 200, body = ''<html>''\<rparr>" ex_page] v
    by (simp add: ex_lib_def ex_http_def with_video_def)
qed

lemma ex_avatar: "avatar (with_blocks ex_lib ex_page (profile_stats ex_lib ex_page)) = ''a.png''"
  by (simp add: with_blocks_def profile_stats_def get_text_def get_text_body_def ex_simps)

text \<open>The loop of a run over the two subjects \<open>A\<close> and \<open>B\<close>, from the state in which
  \<^verbatim>\<open>enhance_data\<close> enters it, without a signal.\<close>

lemma ex_two_rows:
  defines "t0 \<equiv> (ex_state [JStr ''A'', JStr ''B''])
      \<lparr>df := ex_subs [JStr ''A'', JStr ''B''], processed_channels := []\<rparr>"
  defines "st \<equiv> with_blocks ex_lib ex_page (profile_stats ex_lib ex_page)"
  defines "X \<equiv> iterate ex_lib None (ex_subs [JStr ''A'', JStr ''B''])
      [0..<nrows (ex_subs [JStr ''A'', JStr ''B''])] t0"
  shows "fst X = Next"
    and "processed_channels (snd X) = [JStr ''A'', JStr ''B'']"
    and "progress_file (snd X) =
           Some (JObj [(''processed_channels'', JArr [JStr ''A'', JStr ''B''])])"
    and "enhanced_file (snd X) =
           Some (fold (df_at 0) (stats_items ex_lib st) (ex_subs [JStr ''A'', JStr ''B'']))"
    and "df (snd X) =
           fold (df_at 1) (stats_items ex_lib st)
             (fold (df_at 0) (stats_items ex_lib st) (ex_subs [JStr ''A'', JStr ''B'']))"
proof -
  let ?rows = "ex_subs [JStr ''A'', JStr ''B'']"
  have n: "[0..<nrows ?rows] = [0, 1]"
    by (simp add: ex_subs_def upt_rec)
  have r0: "row_getitem ?rows 0 ''channel_id'' = Inr (JStr ''A'')"
    "row_getitem ?rows 0 ''channel_title'' = Inr (JStr ''x'')"
    and r1: "row_getitem ?rows 1 ''channel_id'' = Inr (JStr ''B'')"
    "row_getitem ?rows 1 ''channel_title'' = Inr (JStr ''x'')"
    by (simp_all add: row_getitem_def ex_subs_def)
  have p0: "JStr ''A'' \<notin> set (processed_channels t0)"
    by (simp add: t0_def)
  have f0: "fetch_channel_stats ex_lib (JStr ''A'') (requests t0) =
      (Some st, requests t0 @ [ProfileGet (JStr ''A''), VideoPost (JStr ''A'')])"
    unfolding st_def by (rule ex_fetch) simp
  note a = loop_body_success [OF r0(1) p0 r0(2) f0]
  define t1 where "t1 = snd (loop_body ex_lib None ?rows 0 t0)"
  have b0: "loop_body ex_lib None ?rows 0 t0 = (Next, t1)"
    using a(1) by (simp add: t1_def prod_eq_iff)
  have t1: "processed_channels t1 = [JStr ''A'']"
    "df t1 = fold (df_at 0) (stats_items ex_lib st) ?rows"
    "enhanced_file t1 = Some (fold (df_at 0) (stats_items ex_lib st) ?rows)"
    using a(2,3,5) by (simp_all add: t1_def t0_def)
  have p1: "JStr ''B'' \<notin> set (processed_channels t1)"
    by (simp add: t1)
  have f1: "fetch_channel_stats ex_lib (JStr ''B'') (requests t1) =
      (Some st, requests t1 @ [ProfileGet (JStr ''B''), VideoPost (JStr ''B'')])"
    unfolding st_def by (rule ex_fetch) simp
  note b = loop_body_success [OF r1(1) p1 r1(2) f1]
  define t2 where "t2 = snd (loop_body ex_lib None ?rows 1 t1)"
  have b1: "loop_body ex_lib None ?rows 1 t1 = (Next, t2)"
    using b(1) by (simp add: t2_def prod_eq_iff)
  have X: "X = (Next, t2)"
    using b0 b1 by (simp add: X_def n signal_at_def)
  have t2: "processed_channels t2 = [JStr ''A'', JStr ''B'']"
    "df t2 = fold (df_at 1) (stats_items ex_lib st) (fold (df_at 0) (stats_items ex_lib st) ?rows)"
    "enhanced_file t2 = Some (fold (df_at 0) (stats_items ex_lib st) ?rows)"
    "progress_file t2 = Some (JObj [(''processed_channels'', JArr [JStr ''A'', JStr ''B''])])"
    using b(2,3,4,5) by (simp_all add: t2_def t1)
  show "fst X = Next" by (simp add: X)
  show "processed_channels (snd X) = [JStr ''A'', JStr ''B'']" by (simp add: X t2)
  show "progress_file (snd X) =
      Some (JObj [(''processed_channels'', JArr [JStr ''A'', JStr ''B''])])"
    by (simp add: X t2)
  show "enhanced_file (snd X) = Some (fold (df_at 0) (stats_items ex_lib st) ?rows)"
    by (simp add: X t2)
  show "df (snd X) =
      fold (df_at 1) (stats_items ex_lib st) (fold (df_at 0) (stats_items ex_lib st) ?rows)"
    by (simp add: X t2)
qed

lemma avatar_item:
  "(''socialblade_avatar'', JStr (avatar st)) \<in> set (stats_items L st)"
  by (simp add: stats_items_def stats_dict_def)

lemma run_iteration_top_signal:
  assumes "i < nrows d" "''channel_id'' \<in> set (columns d)" "''channel_title'' \<in> set (columns d)"
  shows "fst (run_iteration L (Some (i, BeforeSkipCheck)) d pcs t) = Interrupted"
proof -
  have "i \<in> set [0..<nrows d]" using assms(1) by simp
  then have "fst (iterate L (Some (i, BeforeSkipCheck)) d [0..<nrows d]
      (t\<lparr>df := d, processed_channels := pcs\<rparr>)) = KeyboardInterrupt"
    using iterate_top_signal [OF assms(2,3)] by blast
  then show ?thesis
    by (cases "iterate L (Some (i, BeforeSkipCheck)) d [0..<nrows d]
      (t\<lparr>df := d, processed_channels := pcs\<rparr>)") (simp add: run_iteration_def)
qed

text \<open>
  Claim C1, as stated, fails. In the run over the two subjects \<open>A\<close> and \<open>B\<close>, after the pass
  of the second row and before the final save, the checkpoint file lists \<open>B\<close>, whose fetch
  returned the avatar \<^verbatim>\<open>a.png\<close>; the frame in memory holds it in the row of \<open>B\<close>, but the
  dataset file, last written at row 0, has an empty cell there.
\<close>

theorem checkpoint_ahead_of_dataset_counterexample:
  "fst (iterate ex_lib None (ex_subs [JStr ''A'', JStr ''B''])
     [0..<nrows (ex_subs [JStr ''A'', JStr ''B''])]
     ((ex_state [JStr ''A'', JStr ''B''])
        \<lparr>df := ex_subs [JStr ''A'', JStr ''B''], processed_channels := []\<rparr>)) = Next \<and>
   progress_file (snd (iterate ex_lib None (ex_subs [JStr ''A'', JStr ''B''])
     [0..<nrows (ex_subs [JStr ''A'', JStr ''B''])]
     ((ex_state [JStr ''A'', JStr ''B''])
        \<lparr>df := ex_subs [JStr ''A'', JStr ''B''], processed_channels := []\<rparr>))) =
     Some (JObj [(''processed_channels'', JArr [JStr ''A'', JStr ''B''])]) \<and>
   row_getitem (ex_subs [JStr ''A'', JStr ''B'']) 1 ''channel_id'' = Inr (JStr ''B'') \<and>
   avatar (with_blocks ex_lib ex_page (profile_stats ex_lib ex_page)) = ''a.png'' \<and>
   cells (df (snd (iterate ex_lib None (ex_subs [JStr ''A'', JStr ''B''])
     [0..<nrows (ex_subs [JStr ''A'', JStr ''B''])]
     ((ex_state [JStr ''A'', JStr ''B''])
        \<lparr>df := ex_subs [JStr ''A'', JStr ''B''], processed_channels := []\<rparr>))))
     1 ''socialblade_avatar'' = JStr ''a.png'' \<and>
   cells (the (enhanced_file (snd (iterate ex_lib None (ex_subs [JStr ''A'', JStr ''B''])
     [0..<nrows (ex_subs [JStr ''A'', JStr ''B''])]
     ((ex_state [JStr ''A'', JStr ''B''])
        \<lparr>df := ex_subs [JStr ''A'', JStr ''B''], processed_channels := []\<rparr>)))))
     1 ''socialblade_avatar'' = JNull"
proof -
  let ?st = "with_blocks ex_lib ex_page (profile_stats ex_lib ex_page)"
  let ?rows = "ex_subs [JStr ''A'', JStr ''B'']"
  have r: "row_getitem ?rows 1 ''channel_id'' = Inr (JStr ''B'')"
    by (simp add: row_getitem_def ex_subs_def)
  have c: "''socialblade_avatar'' \<notin> set (columns ?rows)"
    by (simp add: ex_subs_def)
  have k: "''socialblade_avatar'' \<in> fst ` set (stats_items ex_lib ?st)"
    using avatar_item [of ?st ex_lib] by force
  have old: "cells (fold (df_at 0) (stats_items ex_lib ?st) ?rows) 1 ''socialblade_avatar'' = JNull"
    by (rule fold_df_at_new_column [OF _ c k]) simp
  have new: "cells (fold (df_at 1) (stats_items ex_lib ?st)
      (fold (df_at 0) (stats_items ex_lib ?st) ?rows)) 1 ''socialblade_avatar'' = JStr ''a.png''"
    using fold_df_at_cell [where kvs = "stats_items ex_lib ?st"
        and kv = "(''socialblade_avatar'', JStr (avatar ?st))" and idx = 1
        and d = "fold (df_at 0) (stats_items ex_lib ?st) ?rows",
        OF stats_items_distinct avatar_item]
    by (simp add: ex_avatar)
  show ?thesis
    using old new r by (simp add: ex_two_rows ex_avatar)
qed

text \<open>
  Claim C1, amended. At every point of the loop, whatever the signal and however the loop
  ends: every identifier that the run has added to the set of processed channels belongs to
  a row of the frame in memory that holds the result returned by the fetch of that subject,
  and the identifiers in the checkpoint file (when the run has written it) are identifiers
  of that set. The dataset file is brought up to date only when the dataset is written: it
  holds the frame in memory whenever the run ends normally or by cancellation.
\<close>

theorem checkpoint_behind_memory:
  "(\<forall>c s'. iterate L sg rows idxs s = (c, s') \<longrightarrow>
      (\<forall>cid \<in> set (processed_channels s') - set (processed_channels s).
         \<exists>idx st. idx \<in> set idxs \<and> row_getitem rows idx ''channel_id'' = Inr cid \<and>
           FetchReturned cid (Some st) \<in> set (trace s') \<and> row_holds L (df s') idx st) \<and>
      (progress_file s' = progress_file s \<or>
       (\<exists>pcs. progress_file s' = Some (JObj [(''processed_channels'', JArr pcs)]) \<and>
          set pcs \<subseteq> set (processed_channels s')))) \<and>
   (\<forall>d pcs t out t'.
      run_iteration L sg d pcs t = (out, t') \<and> (out = Done \<or> out = Interrupted) \<longrightarrow>
      enhanced_file t' = Some (df t'))"
proof (intro conjI allI impI)
  fix c s'
  assume i: "iterate L sg rows idxs s = (c, s')"
  show "\<forall>cid \<in> set (processed_channels s') - set (processed_channels s).
         \<exists>idx st. idx \<in> set idxs \<and> row_getitem rows idx ''channel_id'' = Inr cid \<and>
           FetchReturned cid (Some st) \<in> set (trace s') \<and> row_holds L (df s') idx st"
    by (rule iterate_rows_hold [OF i])
  show "progress_file s' = progress_file s \<or>
       (\<exists>pcs. progress_file s' = Some (JObj [(''processed_channels'', JArr pcs)]) \<and>
          set pcs \<subseteq> set (processed_channels s'))"
    by (rule iterate_progress_file [OF i])
next
  fix d pcs t out t'
  assume "run_iteration L sg d pcs t = (out, t') \<and> (out = Done \<or> out = Interrupted)"
  then show "enhanced_file t' = Some (df t')"
    using run_iteration_dataset_current by blast
qed

theorem checkpoint_behind_memory_witness:
  "(\<exists>idx st. idx \<in> set [0..<nrows (ex_subs [JStr ''A'', JStr ''B''])] \<and>
      row_getitem (ex_subs [JStr ''A'', JStr ''B'']) idx ''channel_id'' = Inr (JStr ''B'') \<and>
      FetchReturned (JStr ''B'') (Some st) \<in> set (trace (snd (iterate ex_lib None
        (ex_subs [JStr ''A'', JStr ''B'']) [0..<nrows (ex_subs [JStr ''A'', JStr ''B''])]
        ((ex_state [JStr ''A'', JStr ''B''])
           \<lparr>df := ex_subs [JStr ''A'', JStr ''B''], processed_channels := []\<rparr>)))) \<and>
      row_holds ex_lib (df (snd (iterate ex_lib None
        (ex_subs [JStr ''A'', JStr ''B'']) [0..<nrows (ex_subs [JStr ''A'', JStr ''B''])]
        ((ex_state [JStr ''A'', JStr ''B''])
           \<lparr>df := ex_subs [JStr ''A'', JStr ''B''], processed_channels := []\<rparr>)))) idx st) \<and>
   enhanced_file (snd (run_iteration ex_lib (Some (0, BeforeSkipCheck))
      (ex_subs [JStr ''A'', JStr ''B'']) [] (ex_state [JStr ''A'', JStr ''B'']))) =
     Some (df (snd (run_iteration ex_lib (Some (0, BeforeSkipCheck))
      (ex_subs [JStr ''A'', JStr ''B'']) [] (ex_state [JStr ''A'', JStr ''B'']))))"
proof -
  let ?rows = "ex_subs [JStr ''A'', JStr ''B'']"
  let ?t0 = "(ex_state [JStr ''A'', JStr ''B''])\<lparr>df := ?rows, processed_channels := []\<rparr>"
  let ?X = "iterate ex_lib None ?rows [0..<nrows ?rows] ?t0"
  let ?R = "run_iteration ex_lib (Some (0, BeforeSkipCheck)) ?rows [] (ex_state [JStr ''A'', JStr ''B''])"
  note t = checkpoint_behind_memory [where L = ex_lib and sg = None and rows = ?rows
      and idxs = "[0..<nrows ?rows]" and s = ?t0]
  note u = checkpoint_behind_memory [where L = ex_lib and sg = "Some (0, BeforeSkipCheck)"
      and rows = ?rows and idxs = "[]" and s = ?t0]
  have x: "?X = (fst ?X, snd ?X)" by simp
  have m: "JStr ''B'' \<in> set (processed_channels (snd ?X)) - set (processed_channels ?t0)"
    by (simp add: ex_two_rows)
  have 1: "\<exists>idx st. idx \<in> set [0..<nrows ?rows] \<and>
      row_getitem ?rows idx ''channel_id'' = Inr (JStr ''B'') \<and>
      FetchReturned (JStr ''B'') (Some st) \<in> set (trace (snd ?X)) \<and>
      row_holds ex_lib (df (snd ?X)) idx st"
    using t x m by blast
  have "fst ?R = Interrupted"
    by (rule run_iteration_top_signal) (simp_all add: ex_subs_def)
  then have "?R = (Interrupted, snd ?R)"
    by (simp add: prod_eq_iff)
  then have 2: "enhanced_file (snd ?R) = Some (df (snd ?R))"
    using u by blast
  from 1 2 show ?thesis by blast
qed

section \<open>A subject whose profile page is refused\<close>







end
